theory Spec2Isabelle
  imports Main "HOL-Library.Word"
begin

unbundle bit_operations_syntax

section \<open>The kernel interface used by both probe programs\<close>

text \<open>
  The repository holds two eBPF probe programs for OpenSSL:
  \<^item> \<^verbatim>\<open>ebpf/openssl/openssl_tls.bpf.c\<close>: entry and exit probes for both directions, a
    handle registry (\<^verbatim>\<open>ssl_fd_map\<close>), a 512-byte capture cap and a ring buffer;
  \<^item> \<^verbatim>\<open>ebpf/bpf/openssl_hook.c\<close>: an entry probe for writes, an entry and an exit probe
    for reads, a 65536-byte cap and a perf event array.
  Each handler is a function from the probe context, the kernel environment of the
  invocation and the program's maps to the return value and the updated maps.
\<close>

type_synonym u8 = "8 word"
type_synonym u32 = "32 word"
type_synonym u64 = "64 word"

text \<open>The registers a probe can read: \<^verbatim>\<open>PT_REGS_PARM1..3\<close> and \<^verbatim>\<open>PT_REGS_RC\<close>.\<close>

record pt_regs =
  parm1 :: u64
  parm2 :: u64
  parm3 :: u64
  rc :: u64

text \<open>
  What the kernel helpers answer during one handler invocation:
  \<^verbatim>\<open>bpf_get_current_pid_tgid\<close>, \<^verbatim>\<open>bpf_ktime_get_ns\<close>, the mapped user memory of the
  traced process, and whether the output channel accepts a record
  (\<^verbatim>\<open>bpf_ringbuf_reserve\<close> returns a slot, \<^verbatim>\<open>bpf_perf_event_output\<close> succeeds).
\<close>

record kenv =
  current_pid_tgid :: u64
  ktime_ns :: u64
  user_mem :: "u64 \<rightharpoonup> u8"
  output_ok :: bool

definition bpf_get_current_pid_tgid :: "kenv \<Rightarrow> u64" where
  "bpf_get_current_pid_tgid env = current_pid_tgid env"

definition bpf_ktime_get_ns :: "kenv \<Rightarrow> u64" where
  "bpf_ktime_get_ns env = ktime_ns env"

text \<open>
  \<^verbatim>\<open>bpf_probe_read_user(dst, size, src)\<close>: \<open>Some\<close> of the \<open>sz\<close> bytes at \<open>src\<close> when every
  one of them is mapped, \<open>None\<close> (a negative return) otherwise.
\<close>

definition bpf_probe_read_user :: "kenv \<Rightarrow> u32 \<Rightarrow> u64 \<Rightarrow> u8 list option" where
  "bpf_probe_read_user env sz src =
     those (map (\<lambda>i. user_mem env (src + of_nat i)) [0..<unat sz])"

text \<open>
  \<^verbatim>\<open>BPF_MAP_TYPE_HASH\<close> with \<^verbatim>\<open>max_entries\<close>: an update with \<^verbatim>\<open>BPF_ANY\<close> overwrites an
  existing key, inserts a new key while there is room, and otherwise fails and leaves
  the map as it is. No caller in either program reads the helper's return value.
\<close>

definition bpf_map_lookup_elem :: "('k \<rightharpoonup> 'v) \<Rightarrow> 'k \<Rightarrow> 'v option" where
  "bpf_map_lookup_elem m k = m k"

definition bpf_map_update_elem :: "nat \<Rightarrow> ('k \<rightharpoonup> 'v) \<Rightarrow> 'k \<Rightarrow> 'v \<Rightarrow> ('k \<rightharpoonup> 'v)" where
  "bpf_map_update_elem max_entries m k v =
     (if k \<in> dom m \<or> card (dom m) < max_entries then m(k \<mapsto> v) else m)"

definition bpf_map_delete_elem :: "('k \<rightharpoonup> 'v) \<Rightarrow> 'k \<Rightarrow> ('k \<rightharpoonup> 'v)" where
  "bpf_map_delete_elem m k = m(k := None)"

section \<open>openssl_tls.bpf.c\<close>

definition MAX_TLS_DATA :: u32 where "MAX_TLS_DATA = 512"
definition DIR_WRITE :: u32 where "DIR_WRITE = 1"
definition DIR_READ :: u32 where "DIR_READ = 2"
definition FLAG_TRUNCATED :: u32 where "FLAG_TRUNCATED = 1"

text \<open>\<^verbatim>\<open>max_entries\<close> of \<^verbatim>\<open>ssl_fd_map\<close>, \<^verbatim>\<open>pending_write\<close> and \<^verbatim>\<open>pending_read\<close>.\<close>

definition TLS_MAX_ENTRIES :: nat where "TLS_MAX_ENTRIES = 32768"

record ssl_io_args =
  ssl_ptr :: u64
  buf_ptr :: u64

text \<open>
  \<^verbatim>\<open>struct tls_event\<close>. The field \<open>fd\<close> is an \<^verbatim>\<open>__s32\<close>: the word \<open>- 1\<close> is the unknown
  descriptor. \<open>data\<close> holds the first \<open>data_len\<close> bytes of the array, the ones the
  handler writes.
\<close>

record tls_event =
  timestamp_ns :: u64
  ev_ssl_ptr :: u64
  pid :: u32
  tid :: u32
  fd :: u32
  total_len :: u32
  data_len :: u32
  direction :: u32
  flags :: u32
  data :: "u8 list"

text \<open>The four maps of the program; \<open>tls_events\<close> lists the submitted records, oldest first.\<close>

record tls_state =
  ssl_fd_map :: "u64 \<rightharpoonup> u32"
  pending_write :: "u64 \<rightharpoonup> ssl_io_args"
  pending_read :: "u64 \<rightharpoonup> ssl_io_args"
  tls_events :: "tls_event list"

definition get_tid :: "u64 \<Rightarrow> u32" where
  "get_tid pid_tgid = ucast pid_tgid"

definition get_pid :: "u64 \<Rightarrow> u32" where
  "get_pid pid_tgid = ucast (drop_bit 32 pid_tgid)"

text \<open>
  Lines 69 to 74 of \<^verbatim>\<open>emit_event\<close>: the copy length and the flags computed from the
  \<^verbatim>\<open>__s64\<close> length.
\<close>

definition clamp_len :: "u64 \<Rightarrow> u32 \<times> u32" where
  "clamp_len captured_len =
     (let copy_len = (ucast captured_len :: u32); fl = (0 :: u32)
      in if copy_len > MAX_TLS_DATA then (MAX_TLS_DATA, fl OR FLAG_TRUNCATED)
         else (copy_len, fl))"

text \<open>Lines 92 to 97: the descriptor bound to a handle, or \<open>- 1\<close>.\<close>

definition lookup_fd :: "tls_state \<Rightarrow> u64 \<Rightarrow> u32" where
  "lookup_fd st ssl =
     (case bpf_map_lookup_elem (ssl_fd_map st) ssl of Some d \<Rightarrow> d | None \<Rightarrow> - 1)"

text \<open>
  Lines 99 to 101: the captured bytes. The result of \<^verbatim>\<open>bpf_probe_read_user\<close> is not
  looked at; when the read fails the helper has zeroed the destination.
\<close>

definition read_payload :: "kenv \<Rightarrow> u32 \<Rightarrow> u64 \<Rightarrow> u8 list" where
  "read_payload env copy_len src =
     (if copy_len > 0
      then (case bpf_probe_read_user env copy_len src of
              Some bytes \<Rightarrow> bytes
            | None \<Rightarrow> replicate (unat copy_len) 0)
      else [])"

text \<open>\<^verbatim>\<open>emit_event\<close>; \<open>args = None\<close> is the null pointer.\<close>

definition emit_event ::
  "kenv \<Rightarrow> ssl_io_args option \<Rightarrow> u64 \<Rightarrow> u32 \<Rightarrow> tls_state \<Rightarrow> int \<times> tls_state" where
  "emit_event env args captured_len dir st =
     (case args of
        None \<Rightarrow> (0, st)
      | Some a \<Rightarrow>
          if captured_len \<le>s 0 then (0, st)
          else
            let (copy_len, fl) = clamp_len captured_len
            in if output_ok env
               then
                 let pid_tgid = bpf_get_current_pid_tgid env;
                     event = \<lparr> timestamp_ns = bpf_ktime_get_ns env,
                               ev_ssl_ptr = ssl_ptr a,
                               pid = get_pid pid_tgid,
                               tid = get_tid pid_tgid,
                               fd = lookup_fd st (ssl_ptr a),
                               total_len = ucast captured_len,
                               data_len = copy_len,
                               direction = dir,
                               flags = fl,
                               data = read_payload env copy_len (buf_ptr a) \<rparr>
                 in (0, st\<lparr>tls_events := tls_events st @ [event]\<rparr>)
               else (0, st))"

definition tid_key :: "kenv \<Rightarrow> u64" where
  "tid_key env = bpf_get_current_pid_tgid env"

definition handle_ssl_set_fd :: "kenv \<Rightarrow> pt_regs \<Rightarrow> tls_state \<Rightarrow> int \<times> tls_state" where
  "handle_ssl_set_fd env ctx st =
     (let ssl = parm1 ctx; d = (ucast (parm2 ctx) :: u32)
      in (0, st\<lparr>ssl_fd_map := bpf_map_update_elem TLS_MAX_ENTRIES (ssl_fd_map st) ssl d\<rparr>))"

definition handle_ssl_free :: "kenv \<Rightarrow> pt_regs \<Rightarrow> tls_state \<Rightarrow> int \<times> tls_state" where
  "handle_ssl_free env ctx st =
     (let ssl = parm1 ctx
      in (0, st\<lparr>ssl_fd_map := bpf_map_delete_elem (ssl_fd_map st) ssl\<rparr>))"

definition handle_ssl_write_entry :: "kenv \<Rightarrow> pt_regs \<Rightarrow> tls_state \<Rightarrow> int \<times> tls_state" where
  "handle_ssl_write_entry env ctx st =
     (let args = \<lparr> ssl_ptr = parm1 ctx, buf_ptr = parm2 ctx \<rparr>;
          key = tid_key env
      in (0, st\<lparr>pending_write :=
                  bpf_map_update_elem TLS_MAX_ENTRIES (pending_write st) key args\<rparr>))"

definition handle_ssl_write_exit :: "kenv \<Rightarrow> pt_regs \<Rightarrow> tls_state \<Rightarrow> int \<times> tls_state" where
  "handle_ssl_write_exit env ctx st =
     (let key = tid_key env
      in case bpf_map_lookup_elem (pending_write st) key of
           None \<Rightarrow> (0, st)
         | Some args \<Rightarrow>
             let ret = rc ctx;
                 st1 = snd (emit_event env (Some args) ret DIR_WRITE st)
             in (0, st1\<lparr>pending_write := bpf_map_delete_elem (pending_write st1) key\<rparr>))"

definition handle_ssl_read_entry :: "kenv \<Rightarrow> pt_regs \<Rightarrow> tls_state \<Rightarrow> int \<times> tls_state" where
  "handle_ssl_read_entry env ctx st =
     (let args = \<lparr> ssl_ptr = parm1 ctx, buf_ptr = parm2 ctx \<rparr>;
          key = tid_key env
      in (0, st\<lparr>pending_read :=
                  bpf_map_update_elem TLS_MAX_ENTRIES (pending_read st) key args\<rparr>))"

definition handle_ssl_read_exit :: "kenv \<Rightarrow> pt_regs \<Rightarrow> tls_state \<Rightarrow> int \<times> tls_state" where
  "handle_ssl_read_exit env ctx st =
     (let key = tid_key env
      in case bpf_map_lookup_elem (pending_read st) key of
           None \<Rightarrow> (0, st)
         | Some args \<Rightarrow>
             let ret = rc ctx;
                 st1 = snd (emit_event env (Some args) ret DIR_READ st)
             in (0, st1\<lparr>pending_read := bpf_map_delete_elem (pending_read st1) key\<rparr>))"

section \<open>openssl_hook.c\<close>

definition MAX_CAPTURE_SIZE :: nat where "MAX_CAPTURE_SIZE = 65536"

text \<open>\<^verbatim>\<open>max_entries\<close> of \<^verbatim>\<open>ssl_read_context\<close>.\<close>

definition HOOK_MAX_ENTRIES :: nat where "HOOK_MAX_ENTRIES = 10240"

text \<open>
  \<^verbatim>\<open>struct ssl_event\<close>; the fields carry the prefix \<open>e_\<close> to keep them apart from those of
  \<open>tls_event\<close>. \<open>e_data\<close> holds the bytes the handler read into the zeroed array.
\<close>

record ssl_event =
  e_timestamp_ns :: u64
  e_pid :: u32
  e_tid :: u32
  e_fd :: u32
  e_is_write :: u32
  e_data_len :: u32
  e_data :: "u8 list"

text \<open>\<^verbatim>\<open>struct ssl_read_ctx\<close>; \<open>num\<close> is a C \<^verbatim>\<open>int\<close>, compared as a signed value.\<close>

record ssl_read_ctx =
  buf :: u64
  num :: u32

text \<open>The two maps of the program; \<open>events\<close> lists the records handed to the perf array.\<close>

record hook_state =
  ssl_read_context :: "u64 \<rightharpoonup> ssl_read_ctx"
  events :: "ssl_event list"

text \<open>
  \<^verbatim>\<open>bpf_perf_event_output\<close>: the record reaches the consumer when the channel accepts it;
  the handlers ignore the result.
\<close>

definition bpf_perf_event_output :: "kenv \<Rightarrow> ssl_event \<Rightarrow> hook_state \<Rightarrow> hook_state" where
  "bpf_perf_event_output env event st =
     (if output_ok env then st\<lparr>events := events st @ [event]\<rparr> else st)"

definition uprobe_ssl_write :: "kenv \<Rightarrow> pt_regs \<Rightarrow> hook_state \<Rightarrow> int \<times> hook_state" where
  "uprobe_ssl_write env ctx st =
     (let b = parm2 ctx;
          n = (ucast (parm3 ctx) :: u32)
      in if n \<le>s 0 \<or> (of_nat MAX_CAPTURE_SIZE :: u32) <s n then (0, st)
         else
           case bpf_probe_read_user env n b of
             None \<Rightarrow> (0, st)
           | Some bytes \<Rightarrow>
               let event = \<lparr> e_timestamp_ns = bpf_ktime_get_ns env,
                             e_pid = ucast (drop_bit 32 (bpf_get_current_pid_tgid env)),
                             e_tid = ucast (bpf_get_current_pid_tgid env),
                             e_fd = 0,
                             e_is_write = 1,
                             e_data_len = n,
                             e_data = bytes \<rparr>
               in (0, bpf_perf_event_output env event st))"

definition uprobe_ssl_read :: "kenv \<Rightarrow> pt_regs \<Rightarrow> hook_state \<Rightarrow> int \<times> hook_state" where
  "uprobe_ssl_read env ctx st =
     (let b = parm2 ctx;
          n = (ucast (parm3 ctx) :: u32)
      in if n \<le>s 0 \<or> (of_nat MAX_CAPTURE_SIZE :: u32) <s n then (0, st)
         else
           let pid_tid = bpf_get_current_pid_tgid env;
               ctx_data = \<lparr> buf = b, num = n \<rparr>
           in (0, st\<lparr>ssl_read_context :=
                       bpf_map_update_elem HOOK_MAX_ENTRIES (ssl_read_context st)
                         pid_tid ctx_data\<rparr>))"

text \<open>
  \<^verbatim>\<open>int data_len = ret_val < num ? ret_val : num\<close>: \<open>num\<close> is widened to \<^verbatim>\<open>long\<close> for the
  comparison and the chosen value is narrowed to \<^verbatim>\<open>int\<close>.
\<close>

definition read_data_len :: "u64 \<Rightarrow> u32 \<Rightarrow> u32" where
  "read_data_len ret_val n =
     ucast (if ret_val <s (scast n :: u64) then ret_val else (scast n :: u64))"

definition uretprobe_ssl_read :: "kenv \<Rightarrow> pt_regs \<Rightarrow> hook_state \<Rightarrow> int \<times> hook_state" where
  "uretprobe_ssl_read env ctx st =
     (let pid_tid = bpf_get_current_pid_tgid env;
          ret_val = rc ctx
      in if ret_val \<le>s 0 \<or> (of_nat MAX_CAPTURE_SIZE :: u64) <s ret_val
         then (0, st\<lparr>ssl_read_context := bpf_map_delete_elem (ssl_read_context st) pid_tid\<rparr>)
         else
           case bpf_map_lookup_elem (ssl_read_context st) pid_tid of
             None \<Rightarrow> (0, st)
           | Some ctx_data \<Rightarrow>
               let b = buf ctx_data;
                   n = num ctx_data;
                   dlen = read_data_len ret_val n
               in (case bpf_probe_read_user env dlen b of
                     None \<Rightarrow>
                       (0, st\<lparr>ssl_read_context :=
                                bpf_map_delete_elem (ssl_read_context st) pid_tid\<rparr>)
                   | Some bytes \<Rightarrow>
                       (let event = \<lparr> e_timestamp_ns = bpf_ktime_get_ns env,
                                      e_pid = ucast (drop_bit 32 pid_tid),
                                      e_tid = ucast pid_tid,
                                      e_fd = 0,
                                      e_is_write = 0,
                                      e_data_len = dlen,
                                      e_data = bytes \<rparr>;
                            st1 = st\<lparr>ssl_read_context :=
                                       bpf_map_delete_elem (ssl_read_context st) pid_tid\<rparr>
                        in (0, bpf_perf_event_output env event st1))))"

text \<open>\<^verbatim>\<open>uprobe_ssl_write_ex\<close> and \<^verbatim>\<open>uretprobe_ssl_read_ex\<close> call the base handlers.\<close>

definition uprobe_ssl_write_ex :: "kenv \<Rightarrow> pt_regs \<Rightarrow> hook_state \<Rightarrow> int \<times> hook_state" where
  "uprobe_ssl_write_ex env ctx st = uprobe_ssl_write env ctx st"

definition uretprobe_ssl_read_ex :: "kenv \<Rightarrow> pt_regs \<Rightarrow> hook_state \<Rightarrow> int \<times> hook_state" where
  "uretprobe_ssl_read_ex env ctx st = uretprobe_ssl_read env ctx st"

section \<open>Calls, emitted records and sample states\<close>

text \<open>The records a handler added to the output channel.\<close>

definition tls_emitted :: "tls_state \<Rightarrow> tls_state \<Rightarrow> tls_event list" where
  "tls_emitted st st' = drop (length (tls_events st)) (tls_events st')"

definition hook_emitted :: "hook_state \<Rightarrow> hook_state \<Rightarrow> ssl_event list" where
  "hook_emitted st st' = drop (length (events st)) (events st')"

definition truncated :: "tls_event \<Rightarrow> bool" where
  "truncated e = (flags e AND FLAG_TRUNCATED = FLAG_TRUNCATED)"

text \<open>
  One complete call of the traced function, as the \<^verbatim>\<open>SEC\<close> annotations attach the
  handlers: the entry probe runs with the arguments, then the exit probe with the return
  value. openssl_hook.c attaches no exit probe to \<^verbatim>\<open>SSL_write\<close>, so the registers at
  the return reach no handler.
\<close>

definition tls_ssl_write_call ::
  "kenv \<Rightarrow> pt_regs \<Rightarrow> kenv \<Rightarrow> pt_regs \<Rightarrow> tls_state \<Rightarrow> tls_state" where
  "tls_ssl_write_call env_in ctx_in env_out ctx_out st =
     snd (handle_ssl_write_exit env_out ctx_out (snd (handle_ssl_write_entry env_in ctx_in st)))"

definition tls_ssl_read_call ::
  "kenv \<Rightarrow> pt_regs \<Rightarrow> kenv \<Rightarrow> pt_regs \<Rightarrow> tls_state \<Rightarrow> tls_state" where
  "tls_ssl_read_call env_in ctx_in env_out ctx_out st =
     snd (handle_ssl_read_exit env_out ctx_out (snd (handle_ssl_read_entry env_in ctx_in st)))"

definition hook_ssl_write_call ::
  "kenv \<Rightarrow> pt_regs \<Rightarrow> kenv \<Rightarrow> pt_regs \<Rightarrow> hook_state \<Rightarrow> hook_state" where
  "hook_ssl_write_call env_in ctx_in env_out ctx_out st =
     snd (uprobe_ssl_write env_in ctx_in st)"

definition hook_ssl_read_call ::
  "kenv \<Rightarrow> pt_regs \<Rightarrow> kenv \<Rightarrow> pt_regs \<Rightarrow> hook_state \<Rightarrow> hook_state" where
  "hook_ssl_read_call env_in ctx_in env_out ctx_out st =
     snd (uretprobe_ssl_read env_out ctx_out (snd (uprobe_ssl_read env_in ctx_in st)))"

text \<open>
  Every stored read context holds a length that passed the check of
  \<^verbatim>\<open>uprobe_ssl_read\<close>, the only writer of the map.
\<close>

definition ctx_ok :: "hook_state \<Rightarrow> bool" where
  "ctx_ok st =
     (\<forall>c \<in> ran (ssl_read_context st). 0 <s num c \<and> num c \<le>s of_nat MAX_CAPTURE_SIZE)"

text \<open>The states right after the programs are loaded.\<close>

definition tls_init :: tls_state where
  "tls_init = \<lparr> ssl_fd_map = Map.empty, pending_write = Map.empty,
                pending_read = Map.empty, tls_events = [] \<rparr>"

definition hook_init :: hook_state where
  "hook_init = \<lparr> ssl_read_context = Map.empty, events = [] \<rparr>"

text \<open>
  Thread 7 of process 1; the five bytes of \<open>hello\<close> mapped at address 4096; an output
  channel with room (\<open>env7\<close>) and a full one (\<open>env7_full\<close>); no readable memory
  (\<open>env7_unmapped\<close>).
\<close>

definition hello_mem :: "u64 \<rightharpoonup> u8" where
  "hello_mem = [4096 \<mapsto> 104, 4097 \<mapsto> 101, 4098 \<mapsto> 108, 4099 \<mapsto> 108, 4100 \<mapsto> 111]"

definition env7 :: kenv where
  "env7 = \<lparr> current_pid_tgid = 4294967303, ktime_ns = 1000,
             user_mem = hello_mem, output_ok = True \<rparr>"

definition env7_full :: kenv where
  "env7_full = env7\<lparr>output_ok := False\<rparr>"

definition env7_unmapped :: kenv where
  "env7_unmapped = env7\<lparr>user_mem := Map.empty\<rparr>"

text \<open>Register files: \<open>regs a b c r\<close> has the three arguments and the return value.\<close>

definition regs :: "u64 \<Rightarrow> u64 \<Rightarrow> u64 \<Rightarrow> u64 \<Rightarrow> pt_regs" where
  "regs a b c r = \<lparr> parm1 = a, parm2 = b, parm3 = c, rc = r \<rparr>"

text \<open>A registry in which the 32768 handles below 32768 are bound to descriptor 3.\<close>

definition full_fd_map :: "u64 \<rightharpoonup> u32" where
  "full_fd_map = (\<lambda>k. if k < 32768 then Some 3 else None)"

definition tls_full :: tls_state where
  "tls_full = tls_init\<lparr>ssl_fd_map := full_fd_map\<rparr>"

text \<open>
  States with a call in flight on thread 7: \<open>tls_pending\<close> after \<^verbatim>\<open>SSL_write\<close> and
  \<^verbatim>\<open>SSL_read\<close> were entered with handle 1, buffer 4096 and length 5; \<open>hook_pending\<close>
  after \<^verbatim>\<open>SSL_read\<close> was entered with the same arguments. \<open>tls_bound\<close> has handle 1
  bound to descriptor 5 before the same two entries.
\<close>

definition tls_pending :: tls_state where
  "tls_pending =
     snd (handle_ssl_read_entry env7 (regs 1 4096 5 0)
       (snd (handle_ssl_write_entry env7 (regs 1 4096 5 0) tls_init)))"

definition tls_bound :: tls_state where
  "tls_bound =
     snd (handle_ssl_read_entry env7 (regs 1 4096 5 0)
       (snd (handle_ssl_write_entry env7 (regs 1 4096 5 0)
         (snd (handle_ssl_set_fd env7 (regs 1 5 0 0) tls_init)))))"

definition hook_pending :: hook_state where
  "hook_pending = snd (uprobe_ssl_read env7 (regs 1 4096 5 0) hook_init)"

text \<open>
  The record \<^verbatim>\<open>emit_event\<close> fills in and submits (lines 81 to 103), written once for
  the statements below.
\<close>

definition tls_record :: "kenv \<Rightarrow> ssl_io_args \<Rightarrow> u64 \<Rightarrow> u32 \<Rightarrow> tls_state \<Rightarrow> tls_event" where
  "tls_record env a ret dir st =
     \<lparr> timestamp_ns = bpf_ktime_get_ns env,
       ev_ssl_ptr = ssl_ptr a,
       pid = get_pid (bpf_get_current_pid_tgid env),
       tid = get_tid (bpf_get_current_pid_tgid env),
       fd = lookup_fd st (ssl_ptr a),
       total_len = ucast ret,
       data_len = fst (clamp_len ret),
       direction = dir,
       flags = snd (clamp_len ret),
       data = read_payload env (fst (clamp_len ret)) (buf_ptr a) \<rparr>"

text \<open>
  The record the handlers of openssl_hook.c fill in: \<open>w\<close> is \<^verbatim>\<open>is_write\<close>, \<open>n\<close> the
  length and \<open>bytes\<close> the bytes read.
\<close>

definition hook_record :: "kenv \<Rightarrow> u32 \<Rightarrow> u32 \<Rightarrow> u8 list \<Rightarrow> ssl_event" where
  "hook_record env w n bytes =
     \<lparr> e_timestamp_ns = bpf_ktime_get_ns env,
       e_pid = ucast (drop_bit 32 (bpf_get_current_pid_tgid env)),
       e_tid = ucast (bpf_get_current_pid_tgid env),
       e_fd = 0,
       e_is_write = w,
       e_data_len = n,
       e_data = bytes \<rparr>"

section \<open>Facts about words and maps\<close>

lemma sint_nonneg_uint:
  fixes w :: "'a::len word"
  assumes "0 \<le> sint w"
  shows "uint w = sint w"
proof -
  have "sint w < 2 ^ (LENGTH('a) - 1)" by (rule sint_lt)
  also have "(2::int) ^ (LENGTH('a) - 1) \<le> 2 ^ LENGTH('a)" by (rule power_increasing) simp_all
  finally have "sint w < 2 ^ LENGTH('a)" .
  with assms have "take_bit LENGTH('a) (sint w) = sint w" by (rule take_bit_int_eq_self)
  then show ?thesis by (simp add: uint_sint)
qed

lemma checked_len_range:
  fixes n :: u32
  assumes "\<not> (n \<le>s 0 \<or> (of_nat MAX_CAPTURE_SIZE :: u32) <s n)"
  shows "0 < sint n \<and> sint n \<le> 65536 \<and> int (unat n) = sint n \<and> unat n \<le> 65536"
proof -
  from assms have r: "0 < sint n" "sint n \<le> 65536"
    by (simp_all add: word_sle_eq word_sless_alt MAX_CAPTURE_SIZE_def)
  then have u: "uint n = sint n" by (simp add: sint_nonneg_uint)
  have i: "int (unat n) = uint n" by simp
  from r u i have "int (unat n) \<le> 65536" by linarith
  then have b: "unat n \<le> 65536" by linarith
  from r u i b show ?thesis by (intro conjI) linarith+
qed

lemma checked_ret_range:
  fixes r :: u64
  assumes "\<not> (r \<le>s 0 \<or> (of_nat MAX_CAPTURE_SIZE :: u64) <s r)"
  shows "0 < sint r \<and> sint r \<le> 65536 \<and> int (unat r) = sint r \<and> unat r \<le> 65536"
proof -
  from assms have r: "0 < sint r" "sint r \<le> 65536"
    by (simp_all add: word_sle_eq word_sless_alt MAX_CAPTURE_SIZE_def)
  then have u: "uint r = sint r" by (simp add: sint_nonneg_uint)
  have i: "int (unat r) = uint r" by simp
  from r u i have "int (unat r) \<le> 65536" by linarith
  then have b: "unat r \<le> 65536" by linarith
  from r u i b show ?thesis by (intro conjI) linarith+
qed

lemma sint_scast_up: "sint (scast (n :: u32) :: u64) = sint n"
  by (simp add: sint_up_scast is_up)

lemma ucast_scast_down: "(ucast (scast (n :: u32) :: u64) :: u32) = n"
proof -
  have "(ucast :: u64 \<Rightarrow> u32) = scast" by (rule down_cast_same) (simp add: is_down)
  then show ?thesis by (simp add: scast_up_scast_id is_up)
qed

lemma unat_ucast_small:
  fixes r :: u64
  assumes "unat r \<le> 65536"
  shows "unat (ucast r :: u32) = unat r"
proof -
  have "unat (ucast r :: u32) = take_bit 32 (unat r)" by (simp add: unsigned_ucast_eq)
  also have "\<dots> = unat r" using assms by (intro take_bit_nat_eq_self) simp
  finally show ?thesis .
qed

lemma read_data_len_min:
  fixes r :: u64 and n :: u32
  assumes r: "\<not> (r \<le>s 0 \<or> (of_nat MAX_CAPTURE_SIZE :: u64) <s r)"
    and n: "0 \<le>s n"
  shows "int (unat (read_data_len r n)) = min (sint r) (sint n)"
proof -
  from checked_ret_range [OF r] have rr: "0 < sint r" "sint r \<le> 65536" "unat r \<le> 65536"
    and ur: "int (unat r) = sint r"
    by simp_all
  from n have nn: "0 \<le> sint n" by (simp add: word_sle_eq)
  then have un: "int (unat n) = sint n" using sint_nonneg_uint [of n] by simp
  show ?thesis
  proof (cases "r <s (scast n :: u64)")
    case True
    then have lt: "sint r < sint n" by (simp add: word_sless_alt sint_scast_up)
    from rr have "unat (ucast r :: u32) = unat r" by (simp add: unat_ucast_small)
    with True lt rr ur show ?thesis by (simp add: read_data_len_def)
  next
    case False
    then have ge: "sint n \<le> sint r" by (simp add: word_sless_alt sint_scast_up)
    with False un show ?thesis by (simp add: read_data_len_def ucast_scast_down)
  qed
qed

text \<open>The number of words below a bound, for the size of \<open>full_fd_map\<close>.\<close>

lemma card_word_below: "card {k :: 'a::len word. k < n} = unat n"
proof -
  have "unat ` {k :: 'a word. k < n} = {0..<unat n}"
  proof (intro set_eqI iffI)
    fix x assume "x \<in> unat ` {k :: 'a word. k < n}"
    then show "x \<in> {0..<unat n}" by (auto simp: word_less_nat_alt)
  next
    fix x assume a: "x \<in> {0..<unat n}"
    from a have "x < unat n" by simp
    then have "x < 2 ^ LENGTH('a)" by (rule less_trans) (rule unsigned_less)
    then have "unat (of_nat x :: 'a word) = x" by (simp add: unat_of_nat)
    with a show "x \<in> unat ` {k :: 'a word. k < n}"
      by (auto simp: word_less_nat_alt image_iff intro!: exI[of _ "of_nat x"])
  qed
  moreover have "inj_on unat {k :: 'a word. k < n}" by (auto simp: inj_on_def word_unat_eq_iff)
  ultimately show ?thesis by (metis card_image card_atLeastLessThan diff_zero)
qed

lemma full_fd_map_dom: "dom full_fd_map = {k. k < 32768}"
  by (auto simp: full_fd_map_def dom_def)

lemma full_fd_map_card: "card (dom full_fd_map) = 32768"
  by (simp add: full_fd_map_dom card_word_below)

lemma delete_absent: "m k = None \<Longrightarrow> bpf_map_delete_elem m k = m"
  by (simp add: bpf_map_delete_elem_def fun_upd_idem)

lemma update_with_room:
  "k \<in> dom m \<or> card (dom m) < cap \<Longrightarrow> bpf_map_update_elem cap m k v = m(k \<mapsto> v)"
  by (simp add: bpf_map_update_elem_def)

lemma update_when_full:
  "k \<notin> dom m \<Longrightarrow> cap \<le> card (dom m) \<Longrightarrow> bpf_map_update_elem cap m k v = m"
  by (simp add: bpf_map_update_elem_def)

lemma update_twice:
  "bpf_map_update_elem cap (bpf_map_update_elem cap m k v) k v = bpf_map_update_elem cap m k v"
  by (simp add: bpf_map_update_elem_def)

lemma update_other: "h \<noteq> k \<Longrightarrow> bpf_map_update_elem cap m k v h = m h"
  by (simp add: bpf_map_update_elem_def)

text \<open>
  \<^verbatim>\<open>SSL_write\<close> and \<^verbatim>\<open>SSL_read\<close> return a C \<^verbatim>\<open>int\<close>; the handlers read the whole
  64-bit return register. The lemmas below relate an \<^verbatim>\<open>int\<close> value \<open>r\<close> to a register
  that holds it zero-extended (\<open>ucast r\<close>) or sign-extended (\<open>scast r\<close>); for a positive
  \<open>r\<close> the two are the same word.
\<close>

lemma sint_ucast_up: "sint (ucast (r :: u32) :: u64) = uint r"
proof -
  have "uint r < 4294967296" using uint_lt2p [of r] by simp
  then have "uint r < 2 ^ 63" by simp
  moreover have "- (2 ^ 63) \<le> uint r" by (rule order_trans [of _ 0]) simp_all
  ultimately have "signed_take_bit 63 (uint r) = uint r"
    by (rule signed_take_bit_int_eq_self [rotated])
  then show ?thesis by (simp add: signed_ucast_eq)
qed

lemma ucast_ucast_up_id: "(ucast (ucast (r :: u32) :: u64) :: u32) = r"
  by (simp add: ucast_up_ucast_id is_up)

lemma uint_of_negative:
  fixes r :: u32
  assumes "sint r < 0"
  shows "uint r = sint r + 2 ^ 32"
proof -
  have lo: "- 2147483648 \<le> sint r" using sint_ge [of r] by simp
  have "uint r = sint r mod 4294967296" using uint_sint [of r] by (simp add: take_bit_eq_mod)
  also have "\<dots> = (sint r + 4294967296) mod 4294967296" by simp
  also have "\<dots> = sint r + 4294967296"
    using lo assms by (intro mod_pos_pos_trivial) linarith+
  finally show ?thesis by simp
qed

lemma positive_int_in_register:
  fixes r :: u32
  assumes "0 <s r" "reg = (ucast r :: u64)"
  shows "0 <s reg" "(ucast reg :: u32) = r"
proof -
  from assms(1) have p: "0 < sint r" by (simp add: word_sless_alt)
  then have "uint r = sint r" by (simp add: sint_nonneg_uint)
  with p assms(2) show "0 <s reg" by (simp add: word_sless_alt sint_ucast_up)
  from assms(2) show "(ucast reg :: u32) = r" by (simp add: ucast_ucast_up_id)
qed

lemma nonpositive_int_sign_extended:
  fixes r :: u32
  assumes "r \<le>s 0" "reg = (scast r :: u64)"
  shows "reg \<le>s 0"
  using assms by (simp add: word_sle_eq sint_scast_up)

lemma nonpositive_int_rejected_by_hook:
  fixes r :: u32
  assumes "r \<le>s 0" "reg = (ucast r :: u64) \<or> reg = (scast r :: u64)"
  shows "reg \<le>s 0 \<or> (of_nat MAX_CAPTURE_SIZE :: u64) <s reg"
proof -
  from assms(1) have le: "sint r \<le> 0" by (simp add: word_sle_eq)
  from assms(2) show ?thesis
  proof
    assume z: "reg = (ucast r :: u64)"
    show ?thesis
    proof (cases "sint r = 0")
      case True
      then have "uint r = 0" using sint_nonneg_uint [of r] by simp
      with z show ?thesis by (simp add: word_sle_eq sint_ucast_up)
    next
      case False
      with le have "sint r < 0" by linarith
      then have u: "uint r = sint r + 2 ^ 32" by (rule uint_of_negative)
      have "- 2147483648 \<le> sint r" using sint_ge [of r] by simp
      with u have "65536 < uint r" by simp
      with z show ?thesis by (simp add: word_sless_alt sint_ucast_up MAX_CAPTURE_SIZE_def)
    qed
  next
    assume "reg = (scast r :: u64)"
    with assms(1) show ?thesis by (simp add: nonpositive_int_sign_extended)
  qed
qed

text \<open>The register after an \<^verbatim>\<open>int\<close> result of \<open>- 1\<close> was written to its low half.\<close>

lemma minus_one_zero_extended: "(ucast (- 1 :: u32) :: u64) = 4294967295"
  by (simp add: word_uint_eq_iff uint_up_ucast is_up unsigned_minus_1_eq_mask
      mask_eq_exp_minus_1)

section \<open>Facts about \<open>emit_event\<close>\<close>

lemma emit_event_fst: "fst (emit_event env args ret dir st) = 0"
  by (simp add: emit_event_def Let_def split: option.splits prod.splits)

lemma emit_event_maps:
  "ssl_fd_map (snd (emit_event env args ret dir st)) = ssl_fd_map st"
  "pending_write (snd (emit_event env args ret dir st)) = pending_write st"
  "pending_read (snd (emit_event env args ret dir st)) = pending_read st"
  by (simp_all add: emit_event_def Let_def split: option.splits prod.splits)

section \<open>Evaluating the fixtures\<close>

lemmas fixture_defs =
  tls_init_def hook_init_def env7_def env7_full_def env7_unmapped_def regs_def hello_mem_def
  tls_pending_def tls_bound_def hook_pending_def tid_key_def bpf_get_current_pid_tgid_def
  bpf_ktime_get_ns_def

lemmas handler_defs =
  handle_ssl_set_fd_def handle_ssl_free_def handle_ssl_write_entry_def
  handle_ssl_write_exit_def handle_ssl_read_entry_def handle_ssl_read_exit_def
  uprobe_ssl_write_def uprobe_ssl_read_def uretprobe_ssl_read_def
  bpf_map_lookup_elem_def bpf_map_update_elem_def bpf_map_delete_elem_def
  bpf_perf_event_output_def TLS_MAX_ENTRIES_def HOOK_MAX_ENTRIES_def MAX_CAPTURE_SIZE_def
  word_sle_eq word_sless_alt

lemma tls_pending_eval:
  "tls_pending = \<lparr> ssl_fd_map = Map.empty,
      pending_write = [4294967303 \<mapsto> \<lparr>ssl_ptr = 1, buf_ptr = 4096\<rparr>],
      pending_read = [4294967303 \<mapsto> \<lparr>ssl_ptr = 1, buf_ptr = 4096\<rparr>],
      tls_events = [] \<rparr>"
  by (simp add: fixture_defs handler_defs)

lemma tls_bound_eval:
  "tls_bound = \<lparr> ssl_fd_map = [1 \<mapsto> 5],
      pending_write = [4294967303 \<mapsto> \<lparr>ssl_ptr = 1, buf_ptr = 4096\<rparr>],
      pending_read = [4294967303 \<mapsto> \<lparr>ssl_ptr = 1, buf_ptr = 4096\<rparr>],
      tls_events = [] \<rparr>"
  by (simp add: fixture_defs handler_defs)

lemma hook_pending_eval:
  "hook_pending =
     \<lparr> ssl_read_context = [4294967303 \<mapsto> \<lparr>buf = 4096, num = 5\<rparr>], events = [] \<rparr>"
  by (simp add: fixture_defs handler_defs)

lemma env7_fields:
  "current_pid_tgid env7 = 4294967303" "ktime_ns env7 = 1000"
  "user_mem env7 = hello_mem" "output_ok env7"
  by (simp_all add: env7_def)

lemma env7_full_fields:
  "current_pid_tgid env7_full = 4294967303" "ktime_ns env7_full = 1000"
  "user_mem env7_full = hello_mem" "\<not> output_ok env7_full"
  by (simp_all add: env7_full_def env7_def)

lemma env7_unmapped_fields:
  "current_pid_tgid env7_unmapped = 4294967303" "ktime_ns env7_unmapped = 1000"
  "user_mem env7_unmapped = Map.empty" "output_ok env7_unmapped"
  by (simp_all add: env7_unmapped_def env7_def)

lemma hello_read:
  "user_mem env = hello_mem \<Longrightarrow>
   bpf_probe_read_user env 5 4096 = Some [104, 101, 108, 108, 111]"
  by (simp add: bpf_probe_read_user_def hello_mem_def upt_rec)

lemma unmapped_read:
  "user_mem env = Map.empty \<Longrightarrow> bpf_probe_read_user env 5 4096 = None"
  by (simp add: bpf_probe_read_user_def upt_rec)

lemma five_zeros: "replicate 5 (0 :: u8) = [0, 0, 0, 0, 0]"
  by (simp add: numeral_eq_Suc)

lemma pid_tid_7: "get_pid 4294967303 = 1" "get_tid 4294967303 = 7"
  by (simp_all add: get_pid_def get_tid_def drop_bit_eq_div)

section \<open>An exit without a pending entry\<close>

text \<open>
  Claim C4. When an exit probe fires and no entry is pending under the key of the current
  thread, the handler returns 0 and the whole program state is what it was: no record is
  emitted, no other pending entry and no registry binding changes. This holds for both
  exit handlers of openssl_tls.bpf.c and for \<^verbatim>\<open>uretprobe_ssl_read\<close> of openssl_hook.c,
  whose clean-up delete on a bad return value finds nothing to delete.
\<close>

theorem unmatched_exit_is_noop:
  "(pending_write st (tid_key env) = None \<longrightarrow> handle_ssl_write_exit env ctx st = (0, st)) \<and>
   (pending_read st (tid_key env) = None \<longrightarrow> handle_ssl_read_exit env ctx st = (0, st)) \<and>
   (ssl_read_context hst (bpf_get_current_pid_tgid env) = None \<longrightarrow>
      uretprobe_ssl_read env ctx hst = (0, hst))"
  by (simp add: handle_ssl_write_exit_def handle_ssl_read_exit_def uretprobe_ssl_read_def
      bpf_map_lookup_elem_def delete_absent Let_def)

theorem unmatched_exit_is_noop_witness:
  "pending_write tls_init (tid_key env7) = None \<and>
   handle_ssl_write_exit env7 (regs 0 0 0 5) tls_init = (0, tls_init) \<and>
   pending_read tls_init (tid_key env7) = None \<and>
   handle_ssl_read_exit env7 (regs 0 0 0 5) tls_init = (0, tls_init) \<and>
   ssl_read_context hook_init (bpf_get_current_pid_tgid env7) = None \<and>
   uretprobe_ssl_read env7 (regs 0 0 0 5) hook_init = (0, hook_init)"
  using unmatched_exit_is_noop [where st = tls_init and env = env7 and ctx = "regs 0 0 0 5"
      and hst = hook_init]
  by (simp add: tls_init_def hook_init_def)

section \<open>An exit consumes the pending entry\<close>

text \<open>
  Claim C10. After an exit handler has run on a thread that had a pending entry, the
  table holds no entry under that thread's key, whatever the return value, the outcome
  of the memory read and the state of the output channel: every path of the exit
  handlers that passes the lookup ends in \<^verbatim>\<open>bpf_map_delete_elem\<close>, and the early return
  of \<^verbatim>\<open>uretprobe_ssl_read\<close> on a bad return value deletes before it returns. The four
  exit handlers are \<^verbatim>\<open>handle_ssl_write_exit\<close> and \<^verbatim>\<open>handle_ssl_read_exit\<close> of
  openssl_tls.bpf.c, and \<^verbatim>\<open>uretprobe_ssl_read\<close> and \<^verbatim>\<open>uretprobe_ssl_read_ex\<close> of
  openssl_hook.c.
\<close>

theorem exit_consumes_pending_entry:
  "(pending_write st (tid_key env) \<noteq> None \<longrightarrow>
      pending_write (snd (handle_ssl_write_exit env ctx st)) (tid_key env) = None) \<and>
   (pending_read st (tid_key env) \<noteq> None \<longrightarrow>
      pending_read (snd (handle_ssl_read_exit env ctx st)) (tid_key env) = None) \<and>
   (ssl_read_context hst (bpf_get_current_pid_tgid env) \<noteq> None \<longrightarrow>
      ssl_read_context (snd (uretprobe_ssl_read env ctx hst))
        (bpf_get_current_pid_tgid env) = None \<and>
      ssl_read_context (snd (uretprobe_ssl_read_ex env ctx hst))
        (bpf_get_current_pid_tgid env) = None)"
  by (auto simp add: handle_ssl_write_exit_def handle_ssl_read_exit_def uretprobe_ssl_read_def
      uretprobe_ssl_read_ex_def bpf_map_lookup_elem_def bpf_map_delete_elem_def
      bpf_perf_event_output_def Let_def split: option.splits)

theorem exit_consumes_pending_entry_witness:
  "pending_write tls_pending (tid_key env7) \<noteq> None \<and>
   pending_write (snd (handle_ssl_write_exit env7 (regs 0 0 0 5) tls_pending))
     (tid_key env7) = None \<and>
   pending_read tls_pending (tid_key env7) \<noteq> None \<and>
   pending_read (snd (handle_ssl_read_exit env7 (regs 0 0 0 5) tls_pending))
     (tid_key env7) = None \<and>
   ssl_read_context hook_pending (bpf_get_current_pid_tgid env7) \<noteq> None \<and>
   ssl_read_context (snd (uretprobe_ssl_read env7 (regs 0 0 0 5) hook_pending))
     (bpf_get_current_pid_tgid env7) = None \<and>
   ssl_read_context (snd (uretprobe_ssl_read_ex env7 (regs 0 0 0 5) hook_pending))
     (bpf_get_current_pid_tgid env7) = None"
  using exit_consumes_pending_entry [where st = tls_pending and env = env7
      and ctx = "regs 0 0 0 5" and hst = hook_pending]
  by (simp add: tls_pending_eval hook_pending_eval tid_key_def bpf_get_current_pid_tgid_def
      env7_def)

section \<open>What the exit handlers of openssl_tls.bpf.c emit\<close>

lemma emit_event_emitted:
  "tls_emitted st (snd (emit_event env args ret dir st)) =
     (case args of
        None \<Rightarrow> []
      | Some a \<Rightarrow> if 0 <s ret \<and> output_ok env then [tls_record env a ret dir st] else [])"
  by (auto simp add: emit_event_def tls_emitted_def tls_record_def Let_def word_sle_eq
      word_sless_alt split: option.splits prod.splits)

lemma write_exit_emitted:
  "tls_emitted st (snd (handle_ssl_write_exit env ctx st)) =
     (case pending_write st (tid_key env) of
        None \<Rightarrow> []
      | Some a \<Rightarrow>
          if 0 <s rc ctx \<and> output_ok env then [tls_record env a (rc ctx) DIR_WRITE st] else [])"
  using emit_event_emitted [of st env _ "rc ctx" DIR_WRITE]
  by (auto simp add: handle_ssl_write_exit_def bpf_map_lookup_elem_def Let_def tls_emitted_def
      split: option.splits)

lemma read_exit_emitted:
  "tls_emitted st (snd (handle_ssl_read_exit env ctx st)) =
     (case pending_read st (tid_key env) of
        None \<Rightarrow> []
      | Some a \<Rightarrow>
          if 0 <s rc ctx \<and> output_ok env then [tls_record env a (rc ctx) DIR_READ st] else [])"
  using emit_event_emitted [of st env _ "rc ctx" DIR_READ]
  by (auto simp add: handle_ssl_read_exit_def bpf_map_lookup_elem_def Let_def tls_emitted_def
      split: option.splits)

lemma write_exit_appends:
  "tls_events (snd (handle_ssl_write_exit env ctx st)) =
     tls_events st @ tls_emitted st (snd (handle_ssl_write_exit env ctx st))"
  by (auto simp add: handle_ssl_write_exit_def bpf_map_lookup_elem_def Let_def tls_emitted_def
      emit_event_def split: option.splits prod.splits)

lemma read_exit_appends:
  "tls_events (snd (handle_ssl_read_exit env ctx st)) =
     tls_events st @ tls_emitted st (snd (handle_ssl_read_exit env ctx st))"
  by (auto simp add: handle_ssl_read_exit_def bpf_map_lookup_elem_def Let_def tls_emitted_def
      emit_event_def split: option.splits prod.splits)

text \<open>
  The first scenario of the specification: handle 1 bound to descriptor 5, a write of
  \<open>hello\<close> on thread 7 that returns 5.
\<close>

lemma scenario_bound_write:
  "tls_emitted tls_bound (snd (handle_ssl_write_exit env7 (regs 0 0 0 5) tls_bound)) =
     [\<lparr> timestamp_ns = 1000, ev_ssl_ptr = 1, pid = 1, tid = 7, fd = 5, total_len = 5,
        data_len = 5, direction = DIR_WRITE, flags = 0, data = [104, 101, 108, 108, 111] \<rparr>]"
  by (simp add: hello_read tls_bound_eval write_exit_emitted tls_record_def clamp_len_def
      read_payload_def lookup_fd_def bpf_map_lookup_elem_def pid_tid_7 MAX_TLS_DATA_def
      regs_def tid_key_def bpf_get_current_pid_tgid_def bpf_ktime_get_ns_def word_sle_eq
      word_sless_alt env7_fields)

section \<open>The handle registry\<close>

lemma tls_full_eval:
  "ssl_fd_map tls_full = full_fd_map" "pending_write tls_full = Map.empty"
  "pending_read tls_full = Map.empty" "tls_events tls_full = []"
  by (simp_all add: tls_full_def tls_init_def)

lemma full_fd_map_fresh: "full_fd_map 40000 = None" "40000 \<notin> dom full_fd_map"
  by (simp_all add: full_fd_map_def dom_def)

lemma set_fd_fst: "fst (handle_ssl_set_fd env ctx st) = 0"
  by (simp add: handle_ssl_set_fd_def Let_def)

lemma free_fst: "fst (handle_ssl_free env ctx st) = 0"
  by (simp add: handle_ssl_free_def Let_def)

lemma set_fd_with_room:
  "parm1 ctx \<in> dom (ssl_fd_map st) \<or> card (dom (ssl_fd_map st)) < TLS_MAX_ENTRIES \<Longrightarrow>
   snd (handle_ssl_set_fd env ctx st) =
     st\<lparr>ssl_fd_map := (ssl_fd_map st)(parm1 ctx \<mapsto> ucast (parm2 ctx))\<rparr>"
  by (simp add: handle_ssl_set_fd_def Let_def update_with_room)

lemma set_fd_when_full:
  "parm1 ctx \<notin> dom (ssl_fd_map st) \<Longrightarrow> TLS_MAX_ENTRIES \<le> card (dom (ssl_fd_map st)) \<Longrightarrow>
   snd (handle_ssl_set_fd env ctx st) = st"
  by (simp add: handle_ssl_set_fd_def Let_def update_when_full)

lemma set_fd_twice:
  "snd (handle_ssl_set_fd env' ctx (snd (handle_ssl_set_fd env ctx st))) =
   snd (handle_ssl_set_fd env ctx st)"
  by (simp add: handle_ssl_set_fd_def Let_def update_twice)

lemma set_fd_later_wins:
  assumes "parm1 ctx \<in> dom (ssl_fd_map st) \<or> card (dom (ssl_fd_map st)) < TLS_MAX_ENTRIES"
    and "parm1 ctx' = parm1 ctx"
  shows "ssl_fd_map (snd (handle_ssl_set_fd env' ctx' (snd (handle_ssl_set_fd env ctx st))))
           (parm1 ctx) = Some (ucast (parm2 ctx'))"
  using assms by (simp add: set_fd_with_room handle_ssl_set_fd_def Let_def update_with_room)

lemma free_removes:
  "snd (handle_ssl_free env ctx st) = st\<lparr>ssl_fd_map := (ssl_fd_map st)(parm1 ctx := None)\<rparr>"
  by (simp add: handle_ssl_free_def Let_def bpf_map_delete_elem_def)

lemma free_absent:
  "ssl_fd_map st (parm1 ctx) = None \<Longrightarrow> snd (handle_ssl_free env ctx st) = st"
  by (simp add: handle_ssl_free_def Let_def delete_absent)

lemma lookup_after_bind:
  "parm1 ctx \<in> dom (ssl_fd_map st) \<or> card (dom (ssl_fd_map st)) < TLS_MAX_ENTRIES \<Longrightarrow>
   lookup_fd (snd (handle_ssl_set_fd env ctx st)) (parm1 ctx) = ucast (parm2 ctx)"
  by (simp add: set_fd_with_room lookup_fd_def bpf_map_lookup_elem_def)

lemma lookup_other_handle:
  "h \<noteq> parm1 ctx \<Longrightarrow> lookup_fd (snd (handle_ssl_set_fd env ctx st)) h = lookup_fd st h"
  "h \<noteq> parm1 ctx \<Longrightarrow> lookup_fd (snd (handle_ssl_free env ctx st)) h = lookup_fd st h"
  by (simp_all add: handle_ssl_set_fd_def free_removes Let_def lookup_fd_def
      bpf_map_lookup_elem_def update_other)

lemma lookup_after_unbind: "lookup_fd (snd (handle_ssl_free env ctx st)) (parm1 ctx) = - 1"
  by (simp add: free_removes lookup_fd_def bpf_map_lookup_elem_def)

lemma lookup_unbound: "ssl_fd_map st h = None \<Longrightarrow> lookup_fd st h = - 1"
  by (simp add: lookup_fd_def bpf_map_lookup_elem_def)

lemma registry_frame:
  "ssl_fd_map (snd (handle_ssl_write_entry env ctx st)) = ssl_fd_map st"
  "ssl_fd_map (snd (handle_ssl_read_entry env ctx st)) = ssl_fd_map st"
  "ssl_fd_map (snd (handle_ssl_write_exit env ctx st)) = ssl_fd_map st"
  "ssl_fd_map (snd (handle_ssl_read_exit env ctx st)) = ssl_fd_map st"
  by (simp_all add: handle_ssl_write_entry_def handle_ssl_read_entry_def
      handle_ssl_write_exit_def handle_ssl_read_exit_def Let_def emit_event_maps
      split: option.splits)

lemma exit_after_unbind:
  assumes "ssl_ptr a = parm1 ctx"
  shows "pending_write st (tid_key env') = Some a \<Longrightarrow>
           tls_emitted (snd (handle_ssl_free env ctx st))
             (snd (handle_ssl_write_exit env' ctx' (snd (handle_ssl_free env ctx st)))) =
           (if 0 <s rc ctx' \<and> output_ok env'
            then [(tls_record env' a (rc ctx') DIR_WRITE st)\<lparr>fd := - 1\<rparr>] else [])"
    and "pending_read st (tid_key env') = Some a \<Longrightarrow>
           tls_emitted (snd (handle_ssl_free env ctx st))
             (snd (handle_ssl_read_exit env' ctx' (snd (handle_ssl_free env ctx st)))) =
           (if 0 <s rc ctx' \<and> output_ok env'
            then [(tls_record env' a (rc ctx') DIR_READ st)\<lparr>fd := - 1\<rparr>] else [])"
  using assms
  by (simp_all add: write_exit_emitted read_exit_emitted free_removes tls_record_def
      lookup_fd_def bpf_map_lookup_elem_def)

text \<open>
  Claim C6, as amended. \<^verbatim>\<open>handle_ssl_set_fd\<close> (Bind) and \<^verbatim>\<open>handle_ssl_free\<close> (Unbind)
  always return 0. When the handle is already bound, or fewer than 32768 handles are
  bound, Bind inserts or overwrites the mapping and a later Bind for the same handle
  wins; when the map is full and the handle is not in it, Bind leaves the registry as it
  is. Binding the same pair twice equals binding it once. Unbind removes the mapping and
  changes nothing when the handle is absent.
\<close>

theorem bind_unbind_registry:
  "fst (handle_ssl_set_fd env ctx st) = 0 \<and>
   fst (handle_ssl_free env ctx st) = 0 \<and>
   (parm1 ctx \<in> dom (ssl_fd_map st) \<or> card (dom (ssl_fd_map st)) < TLS_MAX_ENTRIES \<longrightarrow>
      snd (handle_ssl_set_fd env ctx st) =
        st\<lparr>ssl_fd_map := (ssl_fd_map st)(parm1 ctx \<mapsto> ucast (parm2 ctx))\<rparr> \<and>
      (parm1 ctx' = parm1 ctx \<longrightarrow>
         ssl_fd_map (snd (handle_ssl_set_fd env' ctx' (snd (handle_ssl_set_fd env ctx st))))
           (parm1 ctx) = Some (ucast (parm2 ctx')))) \<and>
   (parm1 ctx \<notin> dom (ssl_fd_map st_full) \<and>
    TLS_MAX_ENTRIES \<le> card (dom (ssl_fd_map st_full)) \<longrightarrow>
      snd (handle_ssl_set_fd env ctx st_full) = st_full) \<and>
   snd (handle_ssl_set_fd env' ctx (snd (handle_ssl_set_fd env ctx st))) =
     snd (handle_ssl_set_fd env ctx st) \<and>
   snd (handle_ssl_free env ctx st) = st\<lparr>ssl_fd_map := (ssl_fd_map st)(parm1 ctx := None)\<rparr> \<and>
   (ssl_fd_map st_abs (parm1 ctx) = None \<longrightarrow> snd (handle_ssl_free env ctx st_abs) = st_abs)"
proof (intro conjI impI)
  show "fst (handle_ssl_set_fd env ctx st) = 0" by (rule set_fd_fst)
  show "fst (handle_ssl_free env ctx st) = 0" by (rule free_fst)
  show "snd (handle_ssl_set_fd env' ctx (snd (handle_ssl_set_fd env ctx st))) =
          snd (handle_ssl_set_fd env ctx st)" by (rule set_fd_twice)
  show "snd (handle_ssl_free env ctx st) =
          st\<lparr>ssl_fd_map := (ssl_fd_map st)(parm1 ctx := None)\<rparr>" by (rule free_removes)
next
  assume "parm1 ctx \<in> dom (ssl_fd_map st) \<or> card (dom (ssl_fd_map st)) < TLS_MAX_ENTRIES"
  then show "snd (handle_ssl_set_fd env ctx st) =
          st\<lparr>ssl_fd_map := (ssl_fd_map st)(parm1 ctx \<mapsto> ucast (parm2 ctx))\<rparr>"
    by (rule set_fd_with_room)
next
  assume "parm1 ctx \<in> dom (ssl_fd_map st) \<or> card (dom (ssl_fd_map st)) < TLS_MAX_ENTRIES"
    and "parm1 ctx' = parm1 ctx"
  then show "ssl_fd_map (snd (handle_ssl_set_fd env' ctx' (snd (handle_ssl_set_fd env ctx st))))
          (parm1 ctx) = Some (ucast (parm2 ctx'))"
    by (rule set_fd_later_wins)
next
  assume "parm1 ctx \<notin> dom (ssl_fd_map st_full) \<and>
    TLS_MAX_ENTRIES \<le> card (dom (ssl_fd_map st_full))"
  then show "snd (handle_ssl_set_fd env ctx st_full) = st_full"
    by (simp add: set_fd_when_full)
next
  assume "ssl_fd_map st_abs (parm1 ctx) = None"
  then show "snd (handle_ssl_free env ctx st_abs) = st_abs" by (rule free_absent)
qed

theorem bind_unbind_registry_witness:
  "(parm1 (regs 40000 5 0 0) \<in> dom (ssl_fd_map tls_init) \<or>
      card (dom (ssl_fd_map tls_init)) < TLS_MAX_ENTRIES) \<and>
   snd (handle_ssl_set_fd env7 (regs 40000 5 0 0) tls_init) =
     tls_init\<lparr>ssl_fd_map := [40000 \<mapsto> 5]\<rparr> \<and>
   parm1 (regs 40000 9 0 0) = parm1 (regs 40000 5 0 0) \<and>
   ssl_fd_map (snd (handle_ssl_set_fd env7 (regs 40000 9 0 0)
      (snd (handle_ssl_set_fd env7 (regs 40000 5 0 0) tls_init)))) 40000 = Some 9 \<and>
   parm1 (regs 40000 5 0 0) \<notin> dom (ssl_fd_map tls_full) \<and>
   TLS_MAX_ENTRIES \<le> card (dom (ssl_fd_map tls_full)) \<and>
   snd (handle_ssl_set_fd env7 (regs 40000 5 0 0) tls_full) = tls_full \<and>
   ssl_fd_map tls_init (parm1 (regs 40000 5 0 0)) = None \<and>
   snd (handle_ssl_free env7 (regs 40000 5 0 0) tls_init) = tls_init"
  using bind_unbind_registry [where env = env7 and ctx = "regs 40000 5 0 0" and st = tls_init
      and ctx' = "regs 40000 9 0 0" and env' = env7 and st_full = tls_full
      and st_abs = tls_init]
  by (simp add: regs_def tls_init_def tls_full_eval full_fd_map_fresh full_fd_map_card
      TLS_MAX_ENTRIES_def set_fd_with_room set_fd_when_full)

text \<open>
  The claim as stated fails on a full registry: \<^verbatim>\<open>ssl_fd_map\<close> is a plain hash map
  of 32768 entries, and with all of them in use a Bind of a new handle inserts nothing.
\<close>

theorem bind_on_full_registry_counterexample:
  "ssl_fd_map (snd (handle_ssl_set_fd env7 (regs 40000 5 0 0) tls_full)) 40000 = None"
  by (simp add: handle_ssl_set_fd_def Let_def regs_def tls_full_eval update_when_full
      full_fd_map_fresh full_fd_map_card TLS_MAX_ENTRIES_def)

text \<open>
  Claim C5, as amended. The lookup of \<^verbatim>\<open>emit_event\<close> returns the descriptor of the
  latest Bind of the handle whenever that Bind found the handle already bound or the
  registry below its 32768 entries; it returns \<open>- 1\<close> after an Unbind and for a handle
  that is not bound; Binds and Unbinds of other handles and the four call probes do not
  change its answer. An exit that follows the Unbind of the handle of its pending call
  emits exactly the record it would have emitted with the descriptor replaced by \<open>- 1\<close>.
\<close>

theorem lookup_follows_registry:
  "(parm1 ctx \<in> dom (ssl_fd_map st) \<or> card (dom (ssl_fd_map st)) < TLS_MAX_ENTRIES \<longrightarrow>
      lookup_fd (snd (handle_ssl_set_fd env ctx st)) (parm1 ctx) = ucast (parm2 ctx)) \<and>
   (h \<noteq> parm1 ctx \<longrightarrow>
      lookup_fd (snd (handle_ssl_set_fd env ctx st)) h = lookup_fd st h \<and>
      lookup_fd (snd (handle_ssl_free env ctx st)) h = lookup_fd st h) \<and>
   lookup_fd (snd (handle_ssl_free env ctx st)) (parm1 ctx) = - 1 \<and>
   (ssl_fd_map st h = None \<longrightarrow> lookup_fd st h = - 1) \<and>
   ssl_fd_map (snd (handle_ssl_write_entry env ctx st)) = ssl_fd_map st \<and>
   ssl_fd_map (snd (handle_ssl_read_entry env ctx st)) = ssl_fd_map st \<and>
   ssl_fd_map (snd (handle_ssl_write_exit env ctx st)) = ssl_fd_map st \<and>
   ssl_fd_map (snd (handle_ssl_read_exit env ctx st)) = ssl_fd_map st \<and>
   (ssl_ptr a = parm1 ctx \<and> pending_write st (tid_key env') = Some a \<longrightarrow>
      tls_emitted (snd (handle_ssl_free env ctx st))
        (snd (handle_ssl_write_exit env' ctx' (snd (handle_ssl_free env ctx st)))) =
      (if 0 <s rc ctx' \<and> output_ok env'
       then [(tls_record env' a (rc ctx') DIR_WRITE st)\<lparr>fd := - 1\<rparr>] else [])) \<and>
   (ssl_ptr a = parm1 ctx \<and> pending_read st (tid_key env') = Some a \<longrightarrow>
      tls_emitted (snd (handle_ssl_free env ctx st))
        (snd (handle_ssl_read_exit env' ctx' (snd (handle_ssl_free env ctx st)))) =
      (if 0 <s rc ctx' \<and> output_ok env'
       then [(tls_record env' a (rc ctx') DIR_READ st)\<lparr>fd := - 1\<rparr>] else []))"
proof (intro conjI impI)
  assume "parm1 ctx \<in> dom (ssl_fd_map st) \<or> card (dom (ssl_fd_map st)) < TLS_MAX_ENTRIES"
  then show "lookup_fd (snd (handle_ssl_set_fd env ctx st)) (parm1 ctx) = ucast (parm2 ctx)"
    by (rule lookup_after_bind)
next
  assume "h \<noteq> parm1 ctx"
  then show "lookup_fd (snd (handle_ssl_set_fd env ctx st)) h = lookup_fd st h"
    and "lookup_fd (snd (handle_ssl_free env ctx st)) h = lookup_fd st h"
    by (simp_all add: lookup_other_handle)
next
  show "lookup_fd (snd (handle_ssl_free env ctx st)) (parm1 ctx) = - 1"
    by (rule lookup_after_unbind)
next
  assume "ssl_fd_map st h = None"
  then show "lookup_fd st h = - 1" by (rule lookup_unbound)
next
  show "ssl_fd_map (snd (handle_ssl_write_entry env ctx st)) = ssl_fd_map st"
    and "ssl_fd_map (snd (handle_ssl_read_entry env ctx st)) = ssl_fd_map st"
    and "ssl_fd_map (snd (handle_ssl_write_exit env ctx st)) = ssl_fd_map st"
    and "ssl_fd_map (snd (handle_ssl_read_exit env ctx st)) = ssl_fd_map st"
    by (simp_all add: registry_frame)
next
  assume "ssl_ptr a = parm1 ctx \<and> pending_write st (tid_key env') = Some a"
  then show "tls_emitted (snd (handle_ssl_free env ctx st))
        (snd (handle_ssl_write_exit env' ctx' (snd (handle_ssl_free env ctx st)))) =
      (if 0 <s rc ctx' \<and> output_ok env'
       then [(tls_record env' a (rc ctx') DIR_WRITE st)\<lparr>fd := - 1\<rparr>] else [])"
    using exit_after_unbind(1) [of a ctx st env' env ctx'] by blast
next
  assume "ssl_ptr a = parm1 ctx \<and> pending_read st (tid_key env') = Some a"
  then show "tls_emitted (snd (handle_ssl_free env ctx st))
        (snd (handle_ssl_read_exit env' ctx' (snd (handle_ssl_free env ctx st)))) =
      (if 0 <s rc ctx' \<and> output_ok env'
       then [(tls_record env' a (rc ctx') DIR_READ st)\<lparr>fd := - 1\<rparr>] else [])"
    using exit_after_unbind(2) [of a ctx st env' env ctx'] by blast
qed

theorem lookup_follows_registry_witness:
  "(parm1 (regs 1 6 0 0) \<in> dom (ssl_fd_map tls_bound) \<or>
      card (dom (ssl_fd_map tls_bound)) < TLS_MAX_ENTRIES) \<and>
   lookup_fd tls_bound 1 = 5 \<and>
   lookup_fd (snd (handle_ssl_set_fd env7 (regs 1 6 0 0) tls_bound)) 1 = 6 \<and>
   2 \<noteq> parm1 (regs 1 6 0 0) \<and>
   ssl_fd_map tls_bound 2 = None \<and>
   lookup_fd (snd (handle_ssl_set_fd env7 (regs 1 6 0 0) tls_bound)) 2 = - 1 \<and>
   lookup_fd (snd (handle_ssl_free env7 (regs 1 6 0 0) tls_bound)) 1 = - 1 \<and>
   ssl_ptr \<lparr>ssl_ptr = 1, buf_ptr = 4096\<rparr> = parm1 (regs 1 6 0 0) \<and>
   pending_write tls_bound (tid_key env7) = Some \<lparr>ssl_ptr = 1, buf_ptr = 4096\<rparr> \<and>
   pending_read tls_bound (tid_key env7) = Some \<lparr>ssl_ptr = 1, buf_ptr = 4096\<rparr> \<and>
   map fd (tls_emitted tls_bound (snd (handle_ssl_write_exit env7 (regs 0 0 0 5) tls_bound))) =
     [5] \<and>
   map fd (tls_emitted (snd (handle_ssl_free env7 (regs 1 6 0 0) tls_bound))
     (snd (handle_ssl_write_exit env7 (regs 0 0 0 5)
        (snd (handle_ssl_free env7 (regs 1 6 0 0) tls_bound))))) = [- 1] \<and>
   map fd (tls_emitted (snd (handle_ssl_free env7 (regs 1 6 0 0) tls_bound))
     (snd (handle_ssl_read_exit env7 (regs 0 0 0 5)
        (snd (handle_ssl_free env7 (regs 1 6 0 0) tls_bound))))) = [- 1]"
  using lookup_follows_registry [where ctx = "regs 1 6 0 0" and st = tls_bound and env = env7
      and h = 2 and a = "\<lparr>ssl_ptr = 1, buf_ptr = 4096\<rparr>" and env' = env7
      and ctx' = "regs 0 0 0 5"]
  by (simp add: tls_bound_eval regs_def env7_def tid_key_def bpf_get_current_pid_tgid_def
      lookup_fd_def bpf_map_lookup_elem_def TLS_MAX_ENTRIES_def word_sless_alt
      write_exit_emitted read_exit_emitted tls_record_def free_removes set_fd_with_room)

text \<open>
  The claim as stated fails on a full registry: the Bind of a new handle is not recorded,
  and the lookup that follows answers \<open>- 1\<close>, not the descriptor just bound.
\<close>

theorem bind_on_full_registry_lookup_counterexample:
  "lookup_fd (snd (handle_ssl_set_fd env7 (regs 40000 5 0 0) tls_full)) 40000 \<noteq> 5"
  by (simp add: handle_ssl_set_fd_def Let_def regs_def tls_full_eval update_when_full
      full_fd_map_fresh full_fd_map_card TLS_MAX_ENTRIES_def lookup_fd_def
      bpf_map_lookup_elem_def)

section \<open>What the handlers of openssl_hook.c emit\<close>

lemma uprobe_ssl_write_emitted:
  "hook_emitted st (snd (uprobe_ssl_write env ctx st)) =
     (if ucast (parm3 ctx) \<le>s (0 :: u32) \<or> (of_nat MAX_CAPTURE_SIZE :: u32) <s ucast (parm3 ctx)
      then []
      else case bpf_probe_read_user env (ucast (parm3 ctx)) (parm2 ctx) of
             None \<Rightarrow> []
           | Some bytes \<Rightarrow>
               if output_ok env then [hook_record env 1 (ucast (parm3 ctx)) bytes] else [])"
  by (simp add: uprobe_ssl_write_def hook_emitted_def hook_record_def
      bpf_perf_event_output_def Let_def split: option.splits)

lemma uprobe_ssl_read_emitted: "events (snd (uprobe_ssl_read env ctx st)) = events st"
  by (simp add: uprobe_ssl_read_def Let_def)

lemma uretprobe_ssl_read_emitted:
  "hook_emitted st (snd (uretprobe_ssl_read env ctx st)) =
     (if rc ctx \<le>s 0 \<or> (of_nat MAX_CAPTURE_SIZE :: u64) <s rc ctx then []
      else case ssl_read_context st (bpf_get_current_pid_tgid env) of
             None \<Rightarrow> []
           | Some c \<Rightarrow>
               (case bpf_probe_read_user env (read_data_len (rc ctx) (num c)) (buf c) of
                  None \<Rightarrow> []
                | Some bytes \<Rightarrow>
                    if output_ok env
                    then [hook_record env 0 (read_data_len (rc ctx) (num c)) bytes] else []))"
  by (simp add: uretprobe_ssl_read_def hook_emitted_def hook_record_def
      bpf_perf_event_output_def bpf_map_lookup_elem_def Let_def split: option.splits)

lemma hook_appends:
  "events (snd (uprobe_ssl_write env ctx st)) =
     events st @ hook_emitted st (snd (uprobe_ssl_write env ctx st))"
  "events (snd (uretprobe_ssl_read env ctx st)) =
     events st @ hook_emitted st (snd (uretprobe_ssl_read env ctx st))"
  by (simp_all add: uprobe_ssl_write_def uretprobe_ssl_read_def hook_emitted_def
      bpf_perf_event_output_def Let_def split: option.splits)

lemma ctx_ok_init: "ctx_ok hook_init"
  by (simp add: ctx_ok_def hook_init_def)

lemma ctx_ok_iff:
  "ctx_ok st \<longleftrightarrow>
     (\<forall>k c. ssl_read_context st k = Some c \<longrightarrow> 0 <s num c \<and> num c \<le>s of_nat MAX_CAPTURE_SIZE)"
  by (auto simp add: ctx_ok_def ran_def)

lemma ctx_ok_preserved:
  assumes "ctx_ok st"
  shows "ctx_ok (snd (uprobe_ssl_write env ctx st))"
    and "ctx_ok (snd (uprobe_ssl_read env ctx st))"
    and "ctx_ok (snd (uretprobe_ssl_read env ctx st))"
proof -
  show "ctx_ok (snd (uprobe_ssl_write env ctx st))"
    using assms
    by (simp add: ctx_ok_iff uprobe_ssl_write_def bpf_perf_event_output_def Let_def
        split: option.splits)
  show "ctx_ok (snd (uprobe_ssl_read env ctx st))"
    using assms
    by (auto simp add: ctx_ok_iff uprobe_ssl_read_def bpf_map_update_elem_def Let_def
        word_sle_eq word_sless_alt split: if_splits)
  show "ctx_ok (snd (uretprobe_ssl_read env ctx st))"
    using assms
    by (auto simp add: ctx_ok_iff uretprobe_ssl_read_def bpf_perf_event_output_def
        bpf_map_delete_elem_def bpf_map_lookup_elem_def Let_def split: option.splits if_splits)
qed

lemma write_len_bounded:
  "\<forall>e \<in> set (hook_emitted st (snd (uprobe_ssl_write env ctx st))).
     unat (e_data_len e) \<le> MAX_CAPTURE_SIZE"
proof
  fix e assume e: "e \<in> set (hook_emitted st (snd (uprobe_ssl_write env ctx st)))"
  let ?n = "ucast (parm3 ctx) :: u32"
  from e have r: "\<not> (?n \<le>s 0 \<or> (of_nat MAX_CAPTURE_SIZE :: u32) <s ?n)"
    by (auto simp add: uprobe_ssl_write_emitted split: if_splits)
  with e have "e_data_len e = ?n"
    by (auto simp add: uprobe_ssl_write_emitted hook_record_def split: option.splits if_splits)
  with checked_len_range [OF r] show "unat (e_data_len e) \<le> MAX_CAPTURE_SIZE"
    by (simp add: MAX_CAPTURE_SIZE_def)
qed

lemma read_len_min:
  assumes ok: "ctx_ok st"
    and e: "e \<in> set (hook_emitted st (snd (uretprobe_ssl_read env ctx st)))"
  shows "\<exists>c. ssl_read_context st (bpf_get_current_pid_tgid env) = Some c \<and>
           int (unat (e_data_len e)) = min (sint (rc ctx)) (sint (num c)) \<and>
           0 < sint (rc ctx) \<and> sint (rc ctx) \<le> 65536 \<and> 0 < sint (num c) \<and> sint (num c) \<le> 65536"
proof -
  from e have r: "\<not> (rc ctx \<le>s 0 \<or> (of_nat MAX_CAPTURE_SIZE :: u64) <s rc ctx)"
    by (auto simp add: uretprobe_ssl_read_emitted split: if_splits)
  with e have "\<exists>c. ssl_read_context st (bpf_get_current_pid_tgid env) = Some c \<and>
      e_data_len e = read_data_len (rc ctx) (num c)"
    by (cases "ssl_read_context st (bpf_get_current_pid_tgid env)")
      (auto simp add: uretprobe_ssl_read_emitted hook_record_def split: option.splits if_splits)
  then obtain c where c: "ssl_read_context st (bpf_get_current_pid_tgid env) = Some c"
    and len: "e_data_len e = read_data_len (rc ctx) (num c)"
    by blast
  from ok c have n: "0 <s num c" "num c \<le>s of_nat MAX_CAPTURE_SIZE" by (auto simp add: ctx_ok_iff)
  then have n': "0 < sint (num c)" "sint (num c) \<le> 65536" "0 \<le>s num c"
    by (simp_all add: word_sle_eq word_sless_alt MAX_CAPTURE_SIZE_def)
  from read_data_len_min [OF r n'(3)] len
  have "int (unat (e_data_len e)) = min (sint (rc ctx)) (sint (num c))" by simp
  with c n' checked_ret_range [OF r] show ?thesis by auto
qed

section \<open>Capture length and truncation flag\<close>

lemma tls_record_bounded:
  "data_len (tls_record env a ret dir st) \<le> MAX_TLS_DATA \<and>
   total_len (tls_record env a ret dir st) = ucast ret \<and>
   (truncated (tls_record env a ret dir st) \<longleftrightarrow>
      data_len (tls_record env a ret dir st) < total_len (tls_record env a ret dir st))"
  by (simp add: tls_record_def truncated_def clamp_len_def Let_def MAX_TLS_DATA_def
      FLAG_TRUNCATED_def not_less)

lemma tls_record_clamped:
  "MAX_TLS_DATA < ucast ret \<Longrightarrow>
   data_len (tls_record env a ret dir st) = MAX_TLS_DATA \<and>
   truncated (tls_record env a ret dir st)"
  by (simp add: tls_record_def truncated_def clamp_len_def Let_def MAX_TLS_DATA_def
      FLAG_TRUNCATED_def)

lemma exit_records_bounded:
  "\<forall>e \<in> set (tls_emitted st (snd (handle_ssl_write_exit env ctx st))) \<union>
          set (tls_emitted st (snd (handle_ssl_read_exit env ctx st))).
     data_len e \<le> MAX_TLS_DATA \<and> total_len e = ucast (rc ctx) \<and>
     (truncated e \<longleftrightarrow> data_len e < total_len e)"
  using tls_record_bounded
  by (auto simp add: write_exit_emitted read_exit_emitted split: option.splits if_splits)

lemma oversized_write_is_clamped:
  assumes "pending_write st (tid_key env) = Some a" "0 <s rc ctx"
    "MAX_TLS_DATA < ucast (rc ctx)" "output_ok env"
  shows "map (\<lambda>e. (data_len e, truncated e))
           (tls_emitted st (snd (handle_ssl_write_exit env ctx st))) = [(MAX_TLS_DATA, True)]"
  using assms tls_record_clamped [of "rc ctx" env a DIR_WRITE st]
  by (simp add: write_exit_emitted)

lemma oversized_read_is_clamped:
  assumes "pending_read st (tid_key env) = Some a" "0 <s rc ctx"
    "MAX_TLS_DATA < ucast (rc ctx)" "output_ok env"
  shows "map (\<lambda>e. (data_len e, truncated e))
           (tls_emitted st (snd (handle_ssl_read_exit env ctx st))) = [(MAX_TLS_DATA, True)]"
  using assms tls_record_clamped [of "rc ctx" env a DIR_READ st]
  by (simp add: read_exit_emitted)

lemma read_len_bounded:
  assumes "ctx_ok st"
  shows "\<forall>e \<in> set (hook_emitted st (snd (uretprobe_ssl_read env ctx st))).
           unat (e_data_len e) \<le> MAX_CAPTURE_SIZE"
proof
  fix e assume "e \<in> set (hook_emitted st (snd (uretprobe_ssl_read env ctx st)))"
  from read_len_min [OF assms this] obtain c :: ssl_read_ctx where
    "int (unat (e_data_len e)) = min (sint (rc ctx)) (sint (num c))" "sint (rc ctx) \<le> 65536"
    by blast
  then have "int (unat (e_data_len e)) \<le> 65536" by linarith
  then have "unat (e_data_len e) \<le> 65536" by linarith
  then show "unat (e_data_len e) \<le> MAX_CAPTURE_SIZE" by (simp add: MAX_CAPTURE_SIZE_def)
qed

lemma oversized_read_is_dropped:
  "(of_nat MAX_CAPTURE_SIZE :: u64) <s rc ctx \<Longrightarrow>
   hook_emitted st (snd (uretprobe_ssl_read env ctx st)) = []"
  by (simp add: uretprobe_ssl_read_emitted)

lemma oversized_write_is_dropped:
  "(of_nat MAX_CAPTURE_SIZE :: u32) <s ucast (parm3 ctx) \<Longrightarrow>
   uprobe_ssl_write env ctx st = (0, st)"
  by (simp add: uprobe_ssl_write_def Let_def)

lemma read_data_len_5: "read_data_len 5 5 = 5"
  by (simp add: read_data_len_def)

lemma positive_return_records:
  fixes r :: u32
  assumes "0 <s r" "rc ctx = ucast r"
  shows "\<forall>e \<in> set (tls_emitted st (snd (handle_ssl_write_exit env ctx st))) \<union>
            set (tls_emitted st (snd (handle_ssl_read_exit env ctx st))).
           data_len e \<le> MAX_TLS_DATA \<and> total_len e = r \<and>
           (truncated e \<longleftrightarrow> data_len e < total_len e)"
  using exit_records_bounded [of st env ctx] positive_int_in_register(2) [OF assms]
  by simp

lemma positive_return_clamped:
  fixes r :: u32
  assumes "0 <s r" "rc ctx = ucast r" "MAX_TLS_DATA < r" "output_ok env"
  shows "pending_write st (tid_key env) = Some a \<Longrightarrow>
           map (\<lambda>e. (data_len e, truncated e))
             (tls_emitted st (snd (handle_ssl_write_exit env ctx st))) = [(MAX_TLS_DATA, True)]"
    and "pending_read st (tid_key env) = Some a \<Longrightarrow>
           map (\<lambda>e. (data_len e, truncated e))
             (tls_emitted st (snd (handle_ssl_read_exit env ctx st))) = [(MAX_TLS_DATA, True)]"
  using positive_int_in_register [OF assms(1,2)] assms(3,4)
  by (simp_all add: oversized_write_is_clamped oversized_read_is_clamped)

text \<open>
  Claim C1, as amended. In openssl_tls.bpf.c, for every call whose return code is a
  positive \<^verbatim>\<open>int\<close> \<open>r\<close> (the return register holds \<open>r\<close>): every record the exit
  handler emits has \<open>data_len\<close> at most 512, \<open>total_len\<close> equal to \<open>r\<close>, and the
  truncation flag set exactly when \<open>total_len\<close> exceeds \<open>data_len\<close>; and when a call is
  pending, \<open>r\<close> exceeds 512 and the ring buffer has room, exactly one record is emitted,
  with \<open>data_len = 512\<close> and the flag set (clamp, then flag). In openssl_hook.c the
  record has no truncation flag; every emitted record has \<open>data_len\<close> at most 65536 (for
  reads, in every state that satisfies \<open>ctx_ok\<close>, which holds initially and is kept by
  every handler), and a read whose return value exceeds 65536 emits nothing: it is
  dropped, not clamped. Nothing is said here about the records openssl_tls.bpf.c emits
  for a return code that is not positive.
\<close>

theorem capture_is_bounded_and_flagged:
  "(0 <s r \<and> rc ctx = ucast r \<longrightarrow>
      (\<forall>e \<in> set (tls_emitted st (snd (handle_ssl_write_exit env ctx st))) \<union>
              set (tls_emitted st (snd (handle_ssl_read_exit env ctx st))).
         data_len e \<le> MAX_TLS_DATA \<and> total_len e = r \<and>
         (truncated e \<longleftrightarrow> data_len e < total_len e)) \<and>
      (pending_write st (tid_key env) = Some a \<and> MAX_TLS_DATA < r \<and> output_ok env \<longrightarrow>
         map (\<lambda>e. (data_len e, truncated e))
           (tls_emitted st (snd (handle_ssl_write_exit env ctx st))) = [(MAX_TLS_DATA, True)]) \<and>
      (pending_read st (tid_key env) = Some a \<and> MAX_TLS_DATA < r \<and> output_ok env \<longrightarrow>
         map (\<lambda>e. (data_len e, truncated e))
           (tls_emitted st (snd (handle_ssl_read_exit env ctx st))) = [(MAX_TLS_DATA, True)])) \<and>
   (\<forall>e \<in> set (hook_emitted hst (snd (uprobe_ssl_write env wctx hst))).
      unat (e_data_len e) \<le> MAX_CAPTURE_SIZE) \<and>
   ctx_ok hook_init \<and>
   (ctx_ok rst \<longrightarrow>
      ctx_ok (snd (uprobe_ssl_write env rctx rst)) \<and>
      ctx_ok (snd (uprobe_ssl_read env rctx rst)) \<and>
      ctx_ok (snd (uretprobe_ssl_read env rctx rst)) \<and>
      (\<forall>e \<in> set (hook_emitted rst (snd (uretprobe_ssl_read env rctx rst))).
         unat (e_data_len e) \<le> MAX_CAPTURE_SIZE)) \<and>
   ((of_nat MAX_CAPTURE_SIZE :: u64) <s rc dctx \<longrightarrow>
      hook_emitted rst (snd (uretprobe_ssl_read env dctx rst)) = [])"
proof (intro conjI impI)
  assume "0 <s r \<and> rc ctx = ucast r"
  then have "0 <s r" and "rc ctx = ucast r" by simp_all
  then show "\<forall>e \<in> set (tls_emitted st (snd (handle_ssl_write_exit env ctx st))) \<union>
              set (tls_emitted st (snd (handle_ssl_read_exit env ctx st))).
         data_len e \<le> MAX_TLS_DATA \<and> total_len e = r \<and>
         (truncated e \<longleftrightarrow> data_len e < total_len e)"
    by (rule positive_return_records)
next
  assume "0 <s r \<and> rc ctx = ucast r"
    and "pending_write st (tid_key env) = Some a \<and> MAX_TLS_DATA < r \<and> output_ok env"
  then have "0 <s r" and "rc ctx = ucast r" and "MAX_TLS_DATA < r" and "output_ok env"
    and "pending_write st (tid_key env) = Some a"
    by simp_all
  then show "map (\<lambda>e. (data_len e, truncated e))
           (tls_emitted st (snd (handle_ssl_write_exit env ctx st))) = [(MAX_TLS_DATA, True)]"
    by (rule positive_return_clamped(1))
next
  assume "0 <s r \<and> rc ctx = ucast r"
    and "pending_read st (tid_key env) = Some a \<and> MAX_TLS_DATA < r \<and> output_ok env"
  then have "0 <s r" and "rc ctx = ucast r" and "MAX_TLS_DATA < r" and "output_ok env"
    and "pending_read st (tid_key env) = Some a"
    by simp_all
  then show "map (\<lambda>e. (data_len e, truncated e))
           (tls_emitted st (snd (handle_ssl_read_exit env ctx st))) = [(MAX_TLS_DATA, True)]"
    by (rule positive_return_clamped(2))
next
  show "\<forall>e \<in> set (hook_emitted hst (snd (uprobe_ssl_write env wctx hst))).
      unat (e_data_len e) \<le> MAX_CAPTURE_SIZE"
    by (rule write_len_bounded)
  show "ctx_ok hook_init" by (rule ctx_ok_init)
next
  assume ok: "ctx_ok rst"
  then show "ctx_ok (snd (uprobe_ssl_write env rctx rst))"
    and "ctx_ok (snd (uprobe_ssl_read env rctx rst))"
    and "ctx_ok (snd (uretprobe_ssl_read env rctx rst))"
    by (rule ctx_ok_preserved)+
  from ok show "\<forall>e \<in> set (hook_emitted rst (snd (uretprobe_ssl_read env rctx rst))).
         unat (e_data_len e) \<le> MAX_CAPTURE_SIZE"
    by (rule read_len_bounded)
next
  assume "(of_nat MAX_CAPTURE_SIZE :: u64) <s rc dctx"
  then show "hook_emitted rst (snd (uretprobe_ssl_read env dctx rst)) = []"
    by (rule oversized_read_is_dropped)
qed

theorem capture_is_bounded_and_flagged_witness:
  "0 <s (600 :: u32) \<and> rc (regs 0 0 0 600) = ucast (600 :: u32) \<and>
   pending_write tls_bound (tid_key env7) = Some \<lparr>ssl_ptr = 1, buf_ptr = 4096\<rparr> \<and>
   pending_read tls_bound (tid_key env7) = Some \<lparr>ssl_ptr = 1, buf_ptr = 4096\<rparr> \<and>
   MAX_TLS_DATA < 600 \<and> output_ok env7 \<and>
   map (\<lambda>e. (data_len e, total_len e, truncated e))
     (tls_emitted tls_bound (snd (handle_ssl_write_exit env7 (regs 0 0 0 600) tls_bound))) =
     [(512, 600, True)] \<and>
   map (\<lambda>e. (data_len e, total_len e, truncated e))
     (tls_emitted tls_bound (snd (handle_ssl_read_exit env7 (regs 0 0 0 600) tls_bound))) =
     [(512, 600, True)] \<and>
   map e_data_len (hook_emitted hook_init (snd (uprobe_ssl_write env7 (regs 1 4096 5 0) hook_init))) =
     [5] \<and>
   ctx_ok hook_pending \<and>
   map e_data_len
     (hook_emitted hook_pending (snd (uretprobe_ssl_read env7 (regs 0 0 0 5) hook_pending))) =
     [5] \<and>
   (of_nat MAX_CAPTURE_SIZE :: u64) <s rc (regs 0 0 0 65537) \<and>
   hook_emitted hook_pending (snd (uretprobe_ssl_read env7 (regs 0 0 0 65537) hook_pending)) = []"
  using capture_is_bounded_and_flagged [where r = 600 and st = tls_bound and env = env7
      and ctx = "regs 0 0 0 600" and a = "\<lparr>ssl_ptr = 1, buf_ptr = 4096\<rparr>"
      and hst = hook_init and wctx = "regs 1 4096 5 0" and rst = hook_pending
      and rctx = "regs 0 0 0 5" and dctx = "regs 0 0 0 65537"]
  by (simp add: tls_bound_eval hook_pending_eval ctx_ok_def hello_read read_data_len_5
      write_exit_emitted read_exit_emitted uprobe_ssl_write_emitted uretprobe_ssl_read_emitted
      tls_record_def hook_record_def clamp_len_def truncated_def MAX_TLS_DATA_def
      FLAG_TRUNCATED_def MAX_CAPTURE_SIZE_def regs_def tid_key_def
      bpf_get_current_pid_tgid_def word_sle_eq word_sless_alt hook_init_def env7_fields)

text \<open>
  The claim as stated fails in openssl_hook.c: with a read pending on the thread, a
  readable buffer and room in the channel, a return value of 65537 yields no record; and
  a write of 100000 bytes is skipped by the entry probe.
\<close>

theorem hook_drops_oversized_counterexample:
  "(of_nat MAX_CAPTURE_SIZE :: u64) <s rc (regs 0 0 0 65537) \<and>
   ssl_read_context hook_pending (bpf_get_current_pid_tgid env7) \<noteq> None \<and>
   hook_emitted hook_pending (snd (uretprobe_ssl_read env7 (regs 0 0 0 65537) hook_pending)) = [] \<and>
   uprobe_ssl_write env7 (regs 1 4096 100000 0) hook_init = (0, hook_init)"
  by (simp add: hook_pending_eval uretprobe_ssl_read_emitted regs_def MAX_CAPTURE_SIZE_def
      word_sle_eq word_sless_alt env7_def bpf_get_current_pid_tgid_def uprobe_ssl_write_def)

section \<open>A failed read of the buffer\<close>

text \<open>
  Claim C2. When the read of the captured bytes fails, no record may be emitted.
  openssl_hook.c does so: both of its handlers return before the output call when
  \<^verbatim>\<open>bpf_probe_read_user\<close> fails. \<^verbatim>\<open>emit_event\<close> of openssl_tls.bpf.c does not look at the
  result of the read and submits the record in any case. Evaluated on thread 7 with a
  call pending on handle 1 (descriptor 5), a return value of 5 and a buffer that is not
  mapped: both exit handlers of openssl_tls.bpf.c emit a record of five zero bytes, and
  \<^verbatim>\<open>uretprobe_ssl_read\<close> of openssl_hook.c emits nothing.
\<close>

theorem unreadable_buffer_still_emits:
  "bpf_probe_read_user env7_unmapped 5 4096 = None \<and>
   tls_emitted tls_bound (snd (handle_ssl_write_exit env7_unmapped (regs 0 0 0 5) tls_bound)) =
     [\<lparr> timestamp_ns = 1000, ev_ssl_ptr = 1, pid = 1, tid = 7, fd = 5, total_len = 5,
        data_len = 5, direction = DIR_WRITE, flags = 0, data = [0, 0, 0, 0, 0] \<rparr>] \<and>
   tls_emitted tls_bound (snd (handle_ssl_read_exit env7_unmapped (regs 0 0 0 5) tls_bound)) =
     [\<lparr> timestamp_ns = 1000, ev_ssl_ptr = 1, pid = 1, tid = 7, fd = 5, total_len = 5,
        data_len = 5, direction = DIR_READ, flags = 0, data = [0, 0, 0, 0, 0] \<rparr>] \<and>
   hook_emitted hook_pending
     (snd (uretprobe_ssl_read env7_unmapped (regs 0 0 0 5) hook_pending)) = []"
  by (simp add: unmapped_read tls_bound_eval hook_pending_eval write_exit_emitted
      read_exit_emitted uretprobe_ssl_read_emitted tls_record_def clamp_len_def read_payload_def
      lookup_fd_def bpf_map_lookup_elem_def pid_tid_7 five_zeros read_data_len_5
      MAX_TLS_DATA_def FLAG_TRUNCATED_def MAX_CAPTURE_SIZE_def regs_def tid_key_def
      bpf_get_current_pid_tgid_def bpf_ktime_get_ns_def word_sle_eq word_sless_alt
      env7_unmapped_fields)

section \<open>Records and the return value\<close>

lemma entries_emit_nothing:
  "tls_events (snd (handle_ssl_set_fd env ctx st)) = tls_events st"
  "tls_events (snd (handle_ssl_free env ctx st)) = tls_events st"
  "tls_events (snd (handle_ssl_write_entry env ctx st)) = tls_events st"
  "tls_events (snd (handle_ssl_read_entry env ctx st)) = tls_events st"
  by (simp_all add: handle_ssl_set_fd_def handle_ssl_free_def handle_ssl_write_entry_def
      handle_ssl_read_entry_def Let_def)

lemma nonpositive_exit_emits_nothing:
  assumes "rc ctx \<le>s 0"
  shows "tls_events (snd (handle_ssl_write_exit env ctx st)) = tls_events st"
    and "tls_events (snd (handle_ssl_read_exit env ctx st)) = tls_events st"
    and "events (snd (uretprobe_ssl_read env ctx hst)) = events hst"
  using assms
  by (simp_all add: write_exit_appends read_exit_appends hook_appends write_exit_emitted
      read_exit_emitted uretprobe_ssl_read_emitted word_sle_eq word_sless_alt
      split: option.splits)

lemma nonpositive_call_emits_nothing:
  assumes "rc ctx' \<le>s 0"
  shows "tls_events (tls_ssl_write_call env ctx env' ctx' st) = tls_events st"
    and "tls_events (tls_ssl_read_call env ctx env' ctx' st) = tls_events st"
    and "events (hook_ssl_read_call env ctx env' ctx' hst) = events hst"
  using assms
  by (simp_all add: tls_ssl_write_call_def tls_ssl_read_call_def hook_ssl_read_call_def
      nonpositive_exit_emits_nothing entries_emit_nothing uprobe_ssl_read_emitted)

lemma hook_write_call_emitted:
  "hook_emitted hst (hook_ssl_write_call env ctx env' ctx' hst) =
     (if ucast (parm3 ctx) \<le>s (0 :: u32) \<or> (of_nat MAX_CAPTURE_SIZE :: u32) <s ucast (parm3 ctx)
      then []
      else case bpf_probe_read_user env (ucast (parm3 ctx)) (parm2 ctx) of
             None \<Rightarrow> []
           | Some bytes \<Rightarrow>
               if output_ok env then [hook_record env 1 (ucast (parm3 ctx)) bytes] else [])"
  by (simp add: hook_ssl_write_call_def uprobe_ssl_write_emitted)

lemma rejected_exit_emits_nothing:
  assumes "rc ctx \<le>s 0 \<or> (of_nat MAX_CAPTURE_SIZE :: u64) <s rc ctx"
  shows "events (snd (uretprobe_ssl_read env ctx hst)) = events hst"
    and "events (snd (uretprobe_ssl_read_ex env ctx hst)) = events hst"
    and "events (hook_ssl_read_call env' ctx' env ctx hst) = events hst"
  using assms
  by (simp_all add: uretprobe_ssl_read_ex_def hook_ssl_read_call_def hook_appends
      uretprobe_ssl_read_emitted uprobe_ssl_read_emitted)

text \<open>
  Claim C3, as amended. With \<open>r\<close> the \<^verbatim>\<open>int\<close> return code of the call: in
  openssl_tls.bpf.c (both directions) the entry probes emit nothing, and an exit emits
  nothing when \<open>r\<close> is at most zero and the return register holds \<open>r\<close> sign-extended (in
  particular when \<open>r\<close> is 0). For reads in openssl_hook.c the entry probe emits nothing,
  and an exit (\<^verbatim>\<open>uretprobe_ssl_read\<close> or its alias \<^verbatim>\<open>uretprobe_ssl_read_ex\<close>) emits
  nothing when \<open>r\<close> is at most zero, whether the register holds it zero-extended or
  sign-extended. For writes, openssl_hook.c has no exit probe: the record of a write is
  emitted by the entry probe (\<^verbatim>\<open>uprobe_ssl_write\<close> or its alias), from the requested
  length, whenever that length is between 1 and 65536, the buffer is readable and the
  channel accepts the record; the return value of the call plays no part. Nothing is
  said here about an exit of openssl_tls.bpf.c that finds a negative \<open>r\<close> zero-extended
  in the register.
\<close>

theorem events_follow_positive_exit:
  "tls_events (snd (handle_ssl_write_entry env ctx st)) = tls_events st \<and>
   tls_events (snd (handle_ssl_read_entry env ctx st)) = tls_events st \<and>
   events (snd (uprobe_ssl_read env ctx hst)) = events hst \<and>
   ((r :: u32) \<le>s 0 \<and> rc ctx' = scast r \<longrightarrow>
      tls_events (snd (handle_ssl_write_exit env' ctx' st)) = tls_events st \<and>
      tls_events (snd (handle_ssl_read_exit env' ctx' st)) = tls_events st \<and>
      tls_events (tls_ssl_write_call env ctx env' ctx' st) = tls_events st \<and>
      tls_events (tls_ssl_read_call env ctx env' ctx' st) = tls_events st) \<and>
   ((hr :: u32) \<le>s 0 \<and> (rc hctx = ucast hr \<or> rc hctx = scast hr) \<longrightarrow>
      events (snd (uretprobe_ssl_read env' hctx hst)) = events hst \<and>
      events (snd (uretprobe_ssl_read_ex env' hctx hst)) = events hst \<and>
      events (hook_ssl_read_call env ctx env' hctx hst) = events hst) \<and>
   uprobe_ssl_write_ex env ctx hst = uprobe_ssl_write env ctx hst \<and>
   hook_emitted hst (hook_ssl_write_call env ctx env' ctx' hst) =
     (if ucast (parm3 ctx) \<le>s (0 :: u32) \<or> (of_nat MAX_CAPTURE_SIZE :: u32) <s ucast (parm3 ctx)
      then []
      else case bpf_probe_read_user env (ucast (parm3 ctx)) (parm2 ctx) of
             None \<Rightarrow> []
           | Some bytes \<Rightarrow>
               if output_ok env then [hook_record env 1 (ucast (parm3 ctx)) bytes] else [])"
proof (intro conjI impI)
  show "tls_events (snd (handle_ssl_write_entry env ctx st)) = tls_events st"
    and "tls_events (snd (handle_ssl_read_entry env ctx st)) = tls_events st"
    by (simp_all add: entries_emit_nothing)
  show "events (snd (uprobe_ssl_read env ctx hst)) = events hst"
    by (rule uprobe_ssl_read_emitted)
  show "uprobe_ssl_write_ex env ctx hst = uprobe_ssl_write env ctx hst"
    by (rule uprobe_ssl_write_ex_def)
  show "hook_emitted hst (hook_ssl_write_call env ctx env' ctx' hst) =
     (if ucast (parm3 ctx) \<le>s (0 :: u32) \<or> (of_nat MAX_CAPTURE_SIZE :: u32) <s ucast (parm3 ctx)
      then []
      else case bpf_probe_read_user env (ucast (parm3 ctx)) (parm2 ctx) of
             None \<Rightarrow> []
           | Some bytes \<Rightarrow>
               if output_ok env then [hook_record env 1 (ucast (parm3 ctx)) bytes] else [])"
    by (rule hook_write_call_emitted)
next
  assume "r \<le>s 0 \<and> rc ctx' = scast r"
  then have "r \<le>s 0" and "rc ctx' = scast r" by simp_all
  then have neg: "rc ctx' \<le>s 0" by (rule nonpositive_int_sign_extended)
  then show "tls_events (snd (handle_ssl_write_exit env' ctx' st)) = tls_events st"
    and "tls_events (snd (handle_ssl_read_exit env' ctx' st)) = tls_events st"
    by (rule nonpositive_exit_emits_nothing)+
  from neg show "tls_events (tls_ssl_write_call env ctx env' ctx' st) = tls_events st"
    and "tls_events (tls_ssl_read_call env ctx env' ctx' st) = tls_events st"
    by (rule nonpositive_call_emits_nothing)+
next
  assume "hr \<le>s 0 \<and> (rc hctx = ucast hr \<or> rc hctx = scast hr)"
  then have "rc hctx \<le>s 0 \<or> (of_nat MAX_CAPTURE_SIZE :: u64) <s rc hctx"
    using nonpositive_int_rejected_by_hook [of hr "rc hctx"] by blast
  then show "events (snd (uretprobe_ssl_read env' hctx hst)) = events hst"
    and "events (snd (uretprobe_ssl_read_ex env' hctx hst)) = events hst"
    and "events (hook_ssl_read_call env ctx env' hctx hst) = events hst"
    by (rule rejected_exit_emits_nothing)+
qed

theorem events_follow_positive_exit_witness:
  "(0 :: u32) \<le>s 0 \<and> rc (regs 0 0 0 0) = scast (0 :: u32) \<and>
   tls_events (tls_ssl_write_call env7 (regs 1 4096 5 0) env7 (regs 0 0 0 0) tls_init) = [] \<and>
   tls_events (tls_ssl_read_call env7 (regs 1 4096 5 0) env7 (regs 0 0 0 0) tls_init) = [] \<and>
   (- 1 :: u32) \<le>s 0 \<and> rc (regs 0 0 0 4294967295) = ucast (- 1 :: u32) \<and>
   events (hook_ssl_read_call env7 (regs 1 4096 5 0) env7 (regs 0 0 0 4294967295) hook_init) =
     [] \<and>
   events (snd (uretprobe_ssl_read_ex env7 (regs 0 0 0 4294967295) hook_pending)) = [] \<and>
   hook_emitted hook_init
     (hook_ssl_write_call env7 (regs 1 4096 5 0) env7 (regs 0 0 0 0) hook_init) =
     [hook_record env7 1 5 [104, 101, 108, 108, 111]]"
proof -
  note a = events_follow_positive_exit [where env = env7 and ctx = "regs 1 4096 5 0"
      and st = tls_init and hst = hook_init and r = 0 and ctx' = "regs 0 0 0 0"
      and env' = env7 and hr = "- 1" and hctx = "regs 0 0 0 4294967295"]
  note b = events_follow_positive_exit [where env = env7 and ctx = "regs 1 4096 5 0"
      and st = tls_init and hst = hook_pending and r = 0 and ctx' = "regs 0 0 0 0"
      and env' = env7 and hr = "- 1" and hctx = "regs 0 0 0 4294967295"]
  have h: "(- 1 :: u32) \<le>s 0" "rc (regs 0 0 0 4294967295) = ucast (- 1 :: u32)"
    "(0 :: u32) \<le>s 0" "rc (regs 0 0 0 0) = scast (0 :: u32)"
    by (simp_all add: regs_def word_sle_eq minus_one_zero_extended)
  from a b h show ?thesis
    by (simp add: regs_def tls_init_def hook_init_def hook_pending_eval hello_read
        env7_fields MAX_CAPTURE_SIZE_def word_sle_eq word_sless_alt)
qed

text \<open>
  The claim as stated fails for writes in openssl_hook.c: a call of \<^verbatim>\<open>SSL_write\<close> with
  five readable bytes that returns \<open>- 1\<close> has emitted its record at entry.
\<close>

theorem hook_write_emits_at_entry_counterexample:
  "(- 1 :: u32) \<le>s 0 \<and> rc (regs 0 0 0 4294967295) = ucast (- 1 :: u32) \<and>
   hook_emitted hook_init
     (hook_ssl_write_call env7 (regs 1 4096 5 0) env7 (regs 0 0 0 4294967295) hook_init) =
     [\<lparr> e_timestamp_ns = 1000, e_pid = 1, e_tid = 7, e_fd = 0, e_is_write = 1,
        e_data_len = 5, e_data = [104, 101, 108, 108, 111] \<rparr>]"
  by (simp add: hook_write_call_emitted hook_record_def regs_def word_sle_eq word_sless_alt
      hello_read env7_fields MAX_CAPTURE_SIZE_def bpf_ktime_get_ns_def
      bpf_get_current_pid_tgid_def pid_tid_7 [unfolded get_pid_def get_tid_def]
      minus_one_zero_extended)

text \<open>
  Outside the amended claim, a defect of openssl_tls.bpf.c: its exit handlers compare the
  whole return register as an \<^verbatim>\<open>__s64\<close>. A failed call leaves the \<^verbatim>\<open>int\<close> \<open>- 1\<close>
  zero-extended in the register, which the comparison takes for a positive length, and a
  512-byte record with \<open>total_len = 4294967295\<close> is emitted.
\<close>

lemma zero_extended_failure_is_recorded:
  "rc (regs 0 0 0 4294967295) = ucast (- 1 :: u32) \<and>
   map (\<lambda>e. (data_len e, total_len e, truncated e))
     (tls_emitted tls_bound
        (snd (handle_ssl_write_exit env7 (regs 0 0 0 4294967295) tls_bound))) =
     [(512, 4294967295, True)]"
  by (simp add: minus_one_zero_extended tls_bound_eval write_exit_emitted tls_record_def
      clamp_len_def truncated_def MAX_TLS_DATA_def FLAG_TRUNCATED_def regs_def tid_key_def
      bpf_get_current_pid_tgid_def word_sle_eq word_sless_alt env7_fields)

section \<open>The length check at call entry\<close>

lemma bad_length_not_stored:
  assumes "ucast (parm3 ctx) \<le>s (0 :: u32) \<or> (of_nat MAX_CAPTURE_SIZE :: u32) <s ucast (parm3 ctx)"
  shows "uprobe_ssl_read env ctx hst = (0, hst)"
    and "uprobe_ssl_write env ctx hst = (0, hst)"
  using assms by (simp_all add: uprobe_ssl_read_def uprobe_ssl_write_def Let_def)

lemma bad_length_call_is_noop:
  assumes "ucast (parm3 ctx) \<le>s (0 :: u32) \<or> (of_nat MAX_CAPTURE_SIZE :: u32) <s ucast (parm3 ctx)"
    and "ssl_read_context hst (bpf_get_current_pid_tgid env') = None"
  shows "hook_ssl_read_call env ctx env' ctx' hst = hst"
  using assms
  by (simp add: hook_ssl_read_call_def bad_length_not_stored uretprobe_ssl_read_def
      bpf_map_lookup_elem_def delete_absent Let_def)

lemma tls_entry_ignores_length:
  "handle_ssl_write_entry env (ctx\<lparr>parm3 := x\<rparr>) st = handle_ssl_write_entry env ctx st"
  "handle_ssl_read_entry env (ctx\<lparr>parm3 := x\<rparr>) st = handle_ssl_read_entry env ctx st"
  by (simp_all add: handle_ssl_write_entry_def handle_ssl_read_entry_def)

lemma tls_entry_stores:
  "tid_key env \<in> dom (pending_write st) \<or> card (dom (pending_write st)) < TLS_MAX_ENTRIES \<Longrightarrow>
   pending_write (snd (handle_ssl_write_entry env ctx st)) (tid_key env) =
     Some \<lparr>ssl_ptr = parm1 ctx, buf_ptr = parm2 ctx\<rparr>"
  "tid_key env \<in> dom (pending_read st) \<or> card (dom (pending_read st)) < TLS_MAX_ENTRIES \<Longrightarrow>
   pending_read (snd (handle_ssl_read_entry env ctx st)) (tid_key env) =
     Some \<lparr>ssl_ptr = parm1 ctx, buf_ptr = parm2 ctx\<rparr>"
  by (simp_all add: handle_ssl_write_entry_def handle_ssl_read_entry_def Let_def
      update_with_room)

text \<open>
  Claim C7, as amended. In openssl_hook.c an entry whose requested length is not
  positive or exceeds 65536 stores nothing and emits nothing: \<^verbatim>\<open>uprobe_ssl_read\<close> and
  \<^verbatim>\<open>uprobe_ssl_write\<close> return with the state unchanged, so when no entry was pending for
  the thread the matching read exit finds none and the whole call leaves the state as it
  was. In openssl_tls.bpf.c the entry probes do not read the requested length
  (\<^verbatim>\<open>struct ssl_io_args\<close> has no field for it): whatever the third argument is, they store
  the handle and the buffer address under the thread's key, provided the key is already
  in the table or the table has room.
\<close>

theorem entry_length_check:
  "(ucast (parm3 ctx) \<le>s (0 :: u32) \<or> (of_nat MAX_CAPTURE_SIZE :: u32) <s ucast (parm3 ctx) \<longrightarrow>
      uprobe_ssl_read env ctx hst = (0, hst) \<and>
      uprobe_ssl_write env ctx hst = (0, hst) \<and>
      (ssl_read_context hst (bpf_get_current_pid_tgid env') = None \<longrightarrow>
         hook_ssl_read_call env ctx env' ctx' hst = hst)) \<and>
   handle_ssl_write_entry env (ctx\<lparr>parm3 := x\<rparr>) st = handle_ssl_write_entry env ctx st \<and>
   handle_ssl_read_entry env (ctx\<lparr>parm3 := x\<rparr>) st = handle_ssl_read_entry env ctx st \<and>
   (tid_key env \<in> dom (pending_write st) \<or> card (dom (pending_write st)) < TLS_MAX_ENTRIES \<longrightarrow>
      pending_write (snd (handle_ssl_write_entry env ctx st)) (tid_key env) =
        Some \<lparr>ssl_ptr = parm1 ctx, buf_ptr = parm2 ctx\<rparr>) \<and>
   (tid_key env \<in> dom (pending_read st) \<or> card (dom (pending_read st)) < TLS_MAX_ENTRIES \<longrightarrow>
      pending_read (snd (handle_ssl_read_entry env ctx st)) (tid_key env) =
        Some \<lparr>ssl_ptr = parm1 ctx, buf_ptr = parm2 ctx\<rparr>)"
  by (simp add: bad_length_not_stored bad_length_call_is_noop tls_entry_ignores_length
      tls_entry_stores)

theorem entry_length_check_witness:
  "(ucast (parm3 (regs 1 4096 0 0)) \<le>s (0 :: u32) \<or>
      (of_nat MAX_CAPTURE_SIZE :: u32) <s ucast (parm3 (regs 1 4096 0 0))) \<and>
   uprobe_ssl_read env7 (regs 1 4096 0 0) hook_init = (0, hook_init) \<and>
   uprobe_ssl_write env7 (regs 1 4096 0 0) hook_init = (0, hook_init) \<and>
   ssl_read_context hook_init (bpf_get_current_pid_tgid env7) = None \<and>
   hook_ssl_read_call env7 (regs 1 4096 0 0) env7 (regs 0 0 0 5) hook_init = hook_init \<and>
   (tid_key env7 \<in> dom (pending_write tls_init) \<or>
      card (dom (pending_write tls_init)) < TLS_MAX_ENTRIES) \<and>
   pending_write (snd (handle_ssl_write_entry env7 (regs 1 4096 0 0) tls_init)) (tid_key env7) =
     Some \<lparr>ssl_ptr = 1, buf_ptr = 4096\<rparr> \<and>
   (tid_key env7 \<in> dom (pending_read tls_init) \<or>
      card (dom (pending_read tls_init)) < TLS_MAX_ENTRIES) \<and>
   pending_read (snd (handle_ssl_read_entry env7 (regs 1 4096 0 0) tls_init)) (tid_key env7) =
     Some \<lparr>ssl_ptr = 1, buf_ptr = 4096\<rparr>"
  using entry_length_check [where ctx = "regs 1 4096 0 0" and env = env7 and hst = hook_init
      and env' = env7 and ctx' = "regs 0 0 0 5" and x = 77 and st = tls_init]
  by (simp add: regs_def word_sle_eq word_sless_alt tls_init_def hook_init_def
      TLS_MAX_ENTRIES_def)

text \<open>
  The claim as stated fails in openssl_tls.bpf.c: a read entered with length 0 is stored
  in \<^verbatim>\<open>pending_read\<close>, and a read entered with length 100000 that returns 5 emits a
  record.
\<close>

theorem tls_tracks_zero_length_counterexample:
  "ucast (parm3 (regs 1 4096 0 0)) \<le>s (0 :: u32) \<and>
   pending_read (snd (handle_ssl_read_entry env7 (regs 1 4096 0 0) tls_init)) (tid_key env7) =
     Some \<lparr>ssl_ptr = 1, buf_ptr = 4096\<rparr> \<and>
   (of_nat MAX_CAPTURE_SIZE :: u32) <s ucast (parm3 (regs 1 4096 100000 0)) \<and>
   tls_emitted tls_init
     (tls_ssl_read_call env7 (regs 1 4096 100000 0) env7 (regs 0 0 0 5) tls_init) =
     [\<lparr> timestamp_ns = 1000, ev_ssl_ptr = 1, pid = 1, tid = 7, fd = - 1, total_len = 5,
        data_len = 5, direction = DIR_READ, flags = 0, data = [104, 101, 108, 108, 111] \<rparr>]"
  by (simp add: tls_emitted_def tls_ssl_read_call_def handle_ssl_read_entry_def
      handle_ssl_read_exit_def emit_event_def bpf_map_update_elem_def bpf_map_lookup_elem_def
      bpf_map_delete_elem_def Let_def tls_init_def regs_def tid_key_def
      bpf_get_current_pid_tgid_def bpf_ktime_get_ns_def env7_fields TLS_MAX_ENTRIES_def
      word_sle_eq word_sless_alt clamp_len_def MAX_TLS_DATA_def lookup_fd_def
      read_payload_def hello_read pid_tid_7 MAX_CAPTURE_SIZE_def)

section \<open>The capture length of a read\<close>

lemma hook_read_len:
  assumes "ctx_ok hst"
    and "ssl_read_context hst (bpf_get_current_pid_tgid env) = Some c"
  shows "\<forall>e \<in> set (hook_emitted hst (snd (uretprobe_ssl_read env ctx hst))).
           int (unat (e_data_len e)) =
             min (sint (rc ctx)) (min (sint (num c)) (int MAX_CAPTURE_SIZE))"
proof
  fix e assume "e \<in> set (hook_emitted hst (snd (uretprobe_ssl_read env ctx hst)))"
  from read_len_min [OF assms(1) this] assms(2)
  have "int (unat (e_data_len e)) = min (sint (rc ctx)) (sint (num c))"
    and "sint (rc ctx) \<le> 65536" and "sint (num c) \<le> 65536"
    by auto
  then show "int (unat (e_data_len e)) =
      min (sint (rc ctx)) (min (sint (num c)) (int MAX_CAPTURE_SIZE))"
    by (simp add: MAX_CAPTURE_SIZE_def)
qed

lemma clamp_len_min: "unat (fst (clamp_len r)) = min (unat (ucast r :: u32)) (unat MAX_TLS_DATA)"
  by (simp add: clamp_len_def Let_def MAX_TLS_DATA_def word_less_nat_alt min_def)

lemma tls_read_len:
  "\<forall>e \<in> set (tls_emitted st (snd (handle_ssl_read_exit env ctx st))).
     unat (data_len e) = min (unat (ucast (rc ctx) :: u32)) (unat MAX_TLS_DATA)"
  by (auto simp add: read_exit_emitted tls_record_def clamp_len_min
      split: option.splits if_splits)

lemma read_data_len_5_3: "read_data_len 5 3 = 3" "read_data_len 2 3 = 2"
  by (simp_all add: read_data_len_def)

lemma hello3_read:
  "user_mem env = hello_mem \<Longrightarrow> bpf_probe_read_user env 3 4096 = Some [104, 101, 108]"
  "user_mem env = hello_mem \<Longrightarrow> bpf_probe_read_user env 2 4096 = Some [104, 101]"
  by (simp_all add: bpf_probe_read_user_def hello_mem_def upt_rec)

text \<open>
  Claim C8, as amended. In openssl_hook.c every record of a read has a captured length
  equal to the minimum of the return value, the requested length stored at entry and
  65536 (in every state that satisfies \<open>ctx_ok\<close>). In openssl_tls.bpf.c the requested
  length is not stored at entry, and every record of a read has a captured length equal to
  the minimum of the low 32 bits of the return value and 512, whatever length was
  requested.
\<close>

theorem inbound_capture_length:
  "(ctx_ok hst \<and> ssl_read_context hst (bpf_get_current_pid_tgid env) = Some c \<longrightarrow>
      (\<forall>e \<in> set (hook_emitted hst (snd (uretprobe_ssl_read env ctx hst))).
         int (unat (e_data_len e)) =
           min (sint (rc ctx)) (min (sint (num c)) (int MAX_CAPTURE_SIZE)))) \<and>
   (\<forall>e \<in> set (tls_emitted st (snd (handle_ssl_read_exit env ctx st))).
      unat (data_len e) = min (unat (ucast (rc ctx) :: u32)) (unat MAX_TLS_DATA)) \<and>
   handle_ssl_read_entry env (ectx\<lparr>parm3 := x\<rparr>) st = handle_ssl_read_entry env ectx st"
  using hook_read_len [of hst env c ctx] tls_read_len [of st env ctx]
  by (simp add: tls_entry_ignores_length)

theorem inbound_capture_length_witness:
  "ctx_ok (snd (uprobe_ssl_read env7 (regs 1 4096 3 0) hook_init)) \<and>
   ssl_read_context (snd (uprobe_ssl_read env7 (regs 1 4096 3 0) hook_init))
     (bpf_get_current_pid_tgid env7) = Some \<lparr>buf = 4096, num = 3\<rparr> \<and>
   map e_data_len (hook_emitted (snd (uprobe_ssl_read env7 (regs 1 4096 3 0) hook_init))
     (snd (uretprobe_ssl_read env7 (regs 0 0 0 5)
        (snd (uprobe_ssl_read env7 (regs 1 4096 3 0) hook_init))))) = [3] \<and>
   min (sint (rc (regs 0 0 0 5))) (min (sint (num \<lparr>buf = 4096, num = 3\<rparr>))
     (int MAX_CAPTURE_SIZE)) = 3 \<and>
   map data_len (tls_emitted tls_pending
     (snd (handle_ssl_read_exit env7 (regs 0 0 0 5) tls_pending))) = [5] \<and>
   min (unat (ucast (rc (regs 0 0 0 5)) :: u32)) (unat MAX_TLS_DATA) = 5"
  using inbound_capture_length [where hst = "snd (uprobe_ssl_read env7 (regs 1 4096 3 0) hook_init)"
      and env = env7 and c = "\<lparr>buf = 4096, num = 3\<rparr>" and ctx = "regs 0 0 0 5"
      and st = tls_pending and ectx = "regs 1 4096 3 0" and x = 0]
  by (simp add: uprobe_ssl_read_def bpf_map_update_elem_def HOOK_MAX_ENTRIES_def hook_init_def
      ctx_ok_def regs_def word_sle_eq word_sless_alt MAX_CAPTURE_SIZE_def
      bpf_get_current_pid_tgid_def env7_fields uretprobe_ssl_read_emitted read_data_len_5_3
      hello3_read hook_record_def tls_pending_eval read_exit_emitted tls_record_def
      clamp_len_def MAX_TLS_DATA_def tid_key_def)

text \<open>
  The claim as stated fails in openssl_tls.bpf.c: a read entered with a requested length
  of 3 whose exit reports 5 is recorded with a captured length of 5.
\<close>

theorem tls_ignores_requested_length_counterexample:
  "map (\<lambda>e. int (unat (data_len e)))
     (tls_emitted tls_init
        (tls_ssl_read_call env7 (regs 1 4096 3 0) env7 (regs 0 0 0 5) tls_init)) = [5] \<and>
   min (sint (rc (regs 0 0 0 5)))
     (min (sint (ucast (parm3 (regs 1 4096 3 0)) :: u32)) (int (unat MAX_TLS_DATA))) = 3"
  by (simp add: tls_emitted_def tls_ssl_read_call_def handle_ssl_read_entry_def
      handle_ssl_read_exit_def emit_event_def bpf_map_update_elem_def bpf_map_lookup_elem_def
      bpf_map_delete_elem_def Let_def tls_init_def regs_def tid_key_def
      bpf_get_current_pid_tgid_def env7_fields TLS_MAX_ENTRIES_def
      word_sle_eq word_sless_alt clamp_len_def MAX_TLS_DATA_def)

section \<open>A full output channel\<close>

lemma full_channel_emit_event:
  "\<not> output_ok env \<Longrightarrow> emit_event env args ret dir st = (0, st)"
  by (simp add: emit_event_def Let_def split: option.splits prod.splits)

lemma full_channel_tls_exit:
  assumes "\<not> output_ok env"
  shows "handle_ssl_write_exit env ctx st =
           (0, st\<lparr>pending_write := (pending_write st)(tid_key env := None)\<rparr>)"
    and "handle_ssl_read_exit env ctx st =
           (0, st\<lparr>pending_read := (pending_read st)(tid_key env := None)\<rparr>)"
  using assms
  by (simp_all add: handle_ssl_write_exit_def handle_ssl_read_exit_def Let_def
      full_channel_emit_event bpf_map_lookup_elem_def bpf_map_delete_elem_def fun_upd_idem
      split: option.splits)

lemma full_channel_hook:
  assumes "\<not> output_ok env"
  shows "uprobe_ssl_write env ctx hst = (0, hst)"
    and "uretprobe_ssl_read env ctx hst =
           (0, hst\<lparr>ssl_read_context :=
                     (ssl_read_context hst)(bpf_get_current_pid_tgid env := None)\<rparr>)"
  using assms
  by (simp_all add: uprobe_ssl_write_def uretprobe_ssl_read_def Let_def
      bpf_perf_event_output_def bpf_map_lookup_elem_def bpf_map_delete_elem_def fun_upd_idem
      split: option.splits)

text \<open>
  Claim C9, as amended. When the output channel does not accept the record
  (\<^verbatim>\<open>bpf_ringbuf_reserve\<close> returns null, \<^verbatim>\<open>bpf_perf_event_output\<close> fails), the record is
  dropped and every handler still returns 0. Nothing is counted: the state after the
  handler is the state before it with the pending entry of the thread removed, and
  neither program declares a counter.
\<close>

theorem full_channel_drops_silently:
  "\<not> output_ok env \<longrightarrow>
     emit_event env args ret dir st = (0, st) \<and>
     handle_ssl_write_exit env ctx st =
       (0, st\<lparr>pending_write := (pending_write st)(tid_key env := None)\<rparr>) \<and>
     handle_ssl_read_exit env ctx st =
       (0, st\<lparr>pending_read := (pending_read st)(tid_key env := None)\<rparr>) \<and>
     uprobe_ssl_write env ctx hst = (0, hst) \<and>
     uretprobe_ssl_read env ctx hst =
       (0, hst\<lparr>ssl_read_context :=
                 (ssl_read_context hst)(bpf_get_current_pid_tgid env := None)\<rparr>)"
  by (simp add: full_channel_emit_event full_channel_tls_exit full_channel_hook)

theorem full_channel_drops_silently_witness:
  "\<not> output_ok env7_full \<and>
   emit_event env7_full (Some \<lparr>ssl_ptr = 1, buf_ptr = 4096\<rparr>) 5 DIR_WRITE tls_bound =
     (0, tls_bound) \<and>
   handle_ssl_write_exit env7_full (regs 1 4096 5 5) tls_bound =
     (0, tls_bound\<lparr>pending_write := Map.empty\<rparr>) \<and>
   handle_ssl_read_exit env7_full (regs 1 4096 5 5) tls_bound =
     (0, tls_bound\<lparr>pending_read := Map.empty\<rparr>) \<and>
   uprobe_ssl_write env7_full (regs 1 4096 5 5) hook_pending = (0, hook_pending) \<and>
   uretprobe_ssl_read env7_full (regs 1 4096 5 5) hook_pending =
     (0, hook_pending\<lparr>ssl_read_context := Map.empty\<rparr>)"
  using full_channel_drops_silently [where env = env7_full
      and args = "Some \<lparr>ssl_ptr = 1, buf_ptr = 4096\<rparr>" and ret = 5 and dir = DIR_WRITE
      and st = tls_bound and ctx = "regs 1 4096 5 5" and hst = hook_pending]
  by (simp add: env7_full_fields tls_bound_eval hook_pending_eval tid_key_def
      bpf_get_current_pid_tgid_def)

text \<open>
  The claim as stated fails on the drop counter. With a full channel, a positive return
  value and a readable buffer, the write exit of openssl_tls.bpf.c ends in a state whose
  four maps are listed below: the registry and the other pending table are as before, the
  entry of the thread is gone, no record was added, and there is nothing else. The write
  probe of openssl_hook.c leaves its state untouched.
\<close>

theorem no_drop_counter_counterexample:
  "\<not> output_ok env7_full \<and>
   0 <s rc (regs 1 4096 5 5) \<and>
   bpf_probe_read_user env7_full 5 4096 = Some [104, 101, 108, 108, 111] \<and>
   handle_ssl_write_exit env7_full (regs 1 4096 5 5) tls_bound =
     (0, \<lparr> ssl_fd_map = [1 \<mapsto> 5], pending_write = Map.empty,
           pending_read = [4294967303 \<mapsto> \<lparr>ssl_ptr = 1, buf_ptr = 4096\<rparr>],
           tls_events = [] \<rparr>) \<and>
   uprobe_ssl_write env7_full (regs 1 4096 5 5) hook_init = (0, hook_init)"
  by (simp add: env7_full_fields hello_read tls_bound_eval hook_init_def regs_def
      word_sle_eq word_sless_alt handle_ssl_write_exit_def emit_event_def clamp_len_def
      MAX_TLS_DATA_def bpf_map_lookup_elem_def bpf_map_delete_elem_def Let_def tid_key_def
      bpf_get_current_pid_tgid_def uprobe_ssl_write_def bpf_perf_event_output_def
      MAX_CAPTURE_SIZE_def)

end
